theory Spec2Isabelle
  imports Complex_Main
begin

section \<open>Numbers, vectors and errors\<close>

text \<open>
  The TypeScript sources compute with \<^verbatim>\<open>number\<close>. The embedding reads a number as a
  \<^typ>\<open>real\<close>: rounding, infinities and NaN are not represented, so every statement below
  is about the exact arithmetic the source expressions denote. A quotient whose divisor is
  zero is outside this reading (the source yields an infinity or NaN there).

  A thrown \<^verbatim>\<open>Error\<close> is a value of the type \<open>error\<close>; a function that can throw returns
  \<open>error + 'a\<close>, with \<open>Inl\<close> for the throw.
\<close>

datatype error =
    InsufficientData    \<comment> \<open>\<^verbatim>\<open>new Error("Need at least 3 points for plane fitting")\<close>\<close>
  | InvalidMeasurement  \<comment> \<open>\<^verbatim>\<open>new Error("Invalid measured width")\<close>\<close>

text \<open>\<^verbatim>\<open>types/alignment.ts\<close>: \<^verbatim>\<open>Vec3 = [number, number, number]\<close>, and the
  quaternion \<^verbatim>\<open>[x, y, z, w]\<close>.\<close>

type_synonym Vec3 = "real \<times> real \<times> real"
type_synonym Quat = "real \<times> real \<times> real \<times> real"

record PlaneAlignment =
  pa_quat :: Quat
  pa_pitchRad :: real
  pa_rollRad :: real
  pa_alignMatrix :: "real list"

section \<open>alignment/planeFit.ts\<close>

fun crossProduct :: "Vec3 \<Rightarrow> Vec3 \<Rightarrow> Vec3" where
  "crossProduct (a0, a1, a2) (b0, b1, b2) =
     (a1 * b2 - a2 * b1, a2 * b0 - a0 * b2, a0 * b1 - a1 * b0)"

fun vlength :: "Vec3 \<Rightarrow> real" where
  "vlength (v0, v1, v2) = sqrt (v0 * v0 + v1 * v1 + v2 * v2)"

fun normalizeVec :: "Vec3 \<Rightarrow> Vec3" where
  "normalizeVec (v0, v1, v2) =
     (let len = sqrt (v0 * v0 + v1 * v1 + v2 * v2) in
      if len < 1 / 10 ^ 10 then (0, 0, 1)
      else (v0 / len, v1 / len, v2 / len))"

fun dot :: "Vec3 \<Rightarrow> Vec3 \<Rightarrow> real" where
  "dot (a0, a1, a2) (b0, b1, b2) = a0 * b0 + a1 * b1 + a2 * b2"

text \<open>The centroid loop of \<^verbatim>\<open>estimatePlaneNormal\<close>: the running sum over the points,
  then the division by \<^verbatim>\<open>points.length\<close>.\<close>

fun addPoint :: "Vec3 \<Rightarrow> Vec3 \<Rightarrow> Vec3" where
  "addPoint (p0, p1, p2) (c0, c1, c2) = (c0 + p0, c1 + p1, c2 + p2)"

definition centroidOf :: "Vec3 list \<Rightarrow> Vec3" where
  "centroidOf points =
     (case fold addPoint points (0, 0, 0) of
        (c0, c1, c2) \<Rightarrow>
          (c0 / real (length points), c1 / real (length points), c2 / real (length points)))"

fun centerOn :: "Vec3 \<Rightarrow> Vec3 \<Rightarrow> Vec3" where
  "centerOn (c0, c1, c2) (p0, p1, p2) = (p0 - c0, p1 - c1, p2 - c2)"

definition centered :: "Vec3 list \<Rightarrow> Vec3 list" where
  "centered points = map (centerOn (centroidOf points)) points"

fun upward :: "Vec3 \<Rightarrow> Vec3" where
  "upward (n0, n1, n2) = (if n2 < 0 then (- n0, - n1, - n2) else (n0, n1, n2))"

text \<open>
  \<^verbatim>\<open>estimatePlaneNormal\<close>. The source also fills a covariance matrix \<^verbatim>\<open>cov\<close> from the
  centered points; nothing reads it afterwards, so it has no part in the result. The normal
  is the normalized cross product of the first two centered points. The source computes the
  centroid, the centered points and the cross product in rounded double arithmetic; whether
  a nearly degenerate input falls under the \<open>1e-10\<close> threshold of \<^verbatim>\<open>normalize\<close> depends on
  that rounding, which the exact arithmetic here does not represent.
\<close>

definition estimatePlaneNormal :: "Vec3 list \<Rightarrow> error + Vec3" where
  "estimatePlaneNormal points =
     (if length points < 3 then Inl InsufficientData
      else
        let cs = centered points;
            normal = (if 2 \<le> length cs then normalizeVec (crossProduct (cs ! 0) (cs ! 1))
                      else (0, 0, 1))
        in Inr (upward normal))"

definition quaternionBetween :: "Vec3 \<Rightarrow> Vec3 \<Rightarrow> Quat" where
  "quaternionBetween a b =
     (let aNorm = normalizeVec a;
          bNorm = normalizeVec b;
          d = dot aNorm bNorm
      in if d > 999999 / 1000000 then (0, 0, 0, 1)
         else if d < - (999999 / 1000000) then
           (let orthogonal = (if \<bar>fst aNorm\<bar> > 9 / 10 then (0, 1, 0) else (1, 0, 0));
                crossNorm = normalizeVec (crossProduct aNorm orthogonal)
            in (fst crossNorm, fst (snd crossNorm), snd (snd crossNorm), 0))
         else
           (let c = crossProduct aNorm bNorm;
                s = sqrt ((1 + d) * 2);
                invs = 1 / s
            in (fst c * invs, fst (snd c) * invs, snd (snd c) * invs, s * (1 / 2))))"

text \<open>\<^verbatim>\<open>quaternionToMatrix3\<close>: the nine entries, row after row.\<close>

fun quaternionToMatrix3 :: "Quat \<Rightarrow> real list" where
  "quaternionToMatrix3 (x, y, z, w) =
     (let xx = x * x; yy = y * y; zz = z * z;
          xy = x * y; xz = x * z; yz = y * z;
          wx = w * x; wy = w * y; wz = w * z
      in [1 - 2 * (yy + zz), 2 * (xy - wz), 2 * (xz + wy),
          2 * (xy + wz), 1 - 2 * (xx + zz), 2 * (yz - wx),
          2 * (xz - wy), 2 * (yz + wx), 1 - 2 * (xx + yy)])"

text \<open>\<^verbatim>\<open>Math.atan2(y, x)\<close> on real arguments (the signs of zeros are not represented).\<close>

definition atan2 :: "real \<Rightarrow> real \<Rightarrow> real" where
  "atan2 y x =
     (if 0 < x then arctan (y / x)
      else if x < 0 then (if 0 \<le> y then arctan (y / x) + pi else arctan (y / x) - pi)
      else if 0 < y then pi / 2
      else if y < 0 then - (pi / 2)
      else 0)"

definition alignmentOfNormal :: "Vec3 \<Rightarrow> PlaneAlignment" where
  "alignmentOfNormal normal =
     (let up = (0, 0, 1);
          q = quaternionBetween normal up
      in case q of (x, y, z, w) \<Rightarrow>
           \<lparr> pa_quat = q,
             pa_pitchRad = atan2 (2 * (w * x + y * z)) (1 - 2 * (x * x + y * y)),
             pa_rollRad = atan2 (2 * (w * y - z * x)) (1 - 2 * (y * y + z * z)),
             pa_alignMatrix = quaternionToMatrix3 q \<rparr>)"

text \<open>\<^verbatim>\<open>alignGroundToUp\<close>: the throw of \<^verbatim>\<open>estimatePlaneNormal\<close> passes through.\<close>

definition alignGroundToUp :: "Vec3 list \<Rightarrow> error + PlaneAlignment" where
  "alignGroundToUp points =
     (case estimatePlaneNormal points of
        Inl e \<Rightarrow> Inl e
      | Inr normal \<Rightarrow> Inr (alignmentOfNormal normal))"

section \<open>alignment/scaleCalibration.ts\<close>

definition metersPerUnitFromRoadWidth :: "real \<Rightarrow> real \<Rightarrow> error + real" where
  "metersPerUnitFromRoadWidth trueWidthMeters measuredWidthUnits =
     (if measuredWidthUnits \<le> 0 then Inl InvalidMeasurement
      else Inr (trueWidthMeters / measuredWidthUnits))"

section \<open>types/alignment.ts: the alignment parameters\<close>

text \<open>
  \<^verbatim>\<open>tiltLocked?: boolean\<close> is only ever tested for truthiness, so the absent flag and
  \<^verbatim>\<open>false\<close> are both \<^term>\<open>False\<close>. \<^verbatim>\<open>alignRotation?: number[]\<close> is \<^term>\<open>None\<close> when absent.
\<close>

record EnuParams =
  scale :: real
  yawRad :: real
  pitchRad :: real
  rollRad :: real
  tEast :: real
  tNorth :: real
  tUp :: real
  tiltLocked :: bool
  alignRotation :: "real list option"

section \<open>adjustment-tracker.ts\<close>

datatype AdjustmentType = ScaleType | YawType | PitchType | RollType | PositionType | HeightType

text \<open>\<^verbatim>\<open>before\<close>, \<^verbatim>\<open>after\<close> and \<^verbatim>\<open>delta\<close> are a number, or the object
  \<^verbatim>\<open>{E, N, U}\<close> of a position entry.\<close>

datatype LogValue = Num real | ENU real real real

record AdjustmentLog =
  timestamp :: int
  logType :: AdjustmentType
  before :: LogValue
  after :: LogValue
  delta :: LogValue

record TotalDeltas =
  td_scale :: real
  td_yawRad :: real
  td_pitchRad :: real
  td_rollRad :: real
  td_tEast :: real
  td_tNorth :: real
  td_tUp :: real

record AdjustmentTracker =
  initialParams :: EnuParams
  currentParams :: EnuParams
  logs :: "AdjustmentLog list"
  totalDeltas :: TotalDeltas
  enabled :: bool

definition zeroDeltas :: TotalDeltas where
  "zeroDeltas = \<lparr> td_scale = 0, td_yawRad = 0, td_pitchRad = 0, td_rollRad = 0,
                   td_tEast = 0, td_tNorth = 0, td_tUp = 0 \<rparr>"

definition newAdjustmentTracker :: "EnuParams \<Rightarrow> AdjustmentTracker" where
  "newAdjustmentTracker initial =
     \<lparr> initialParams = initial, currentParams = initial, logs = [],
       totalDeltas = zeroDeltas, enabled = True \<rparr>"

text \<open>Every logging method takes \<open>now\<close>, the value \<^verbatim>\<open>Date.now()\<close> returns in the call.\<close>

definition logScaleAdjustment :: "int \<Rightarrow> real \<Rightarrow> real \<Rightarrow> AdjustmentTracker \<Rightarrow> AdjustmentTracker" where
  "logScaleAdjustment now b a t =
     (if \<not> enabled t then t
      else
        let factor = a / b in
        t\<lparr> totalDeltas := (totalDeltas t)\<lparr> td_scale := a / scale (initialParams t) \<rparr>,
           logs := logs t @ [\<lparr> timestamp = now, logType = ScaleType,
                               before = Num b, after = Num a, delta = Num factor \<rparr>],
           currentParams := (currentParams t)\<lparr> scale := a \<rparr> \<rparr>)"

definition logYawAdjustment :: "int \<Rightarrow> real \<Rightarrow> real \<Rightarrow> AdjustmentTracker \<Rightarrow> AdjustmentTracker" where
  "logYawAdjustment now b a t =
     (if \<not> enabled t then t
      else
        t\<lparr> totalDeltas := (totalDeltas t)\<lparr> td_yawRad := a - yawRad (initialParams t) \<rparr>,
           logs := logs t @ [\<lparr> timestamp = now, logType = YawType,
                               before = Num b, after = Num a, delta = Num (a - b) \<rparr>],
           currentParams := (currentParams t)\<lparr> yawRad := a \<rparr> \<rparr>)"

definition logPitchAdjustment :: "int \<Rightarrow> real \<Rightarrow> real \<Rightarrow> AdjustmentTracker \<Rightarrow> AdjustmentTracker" where
  "logPitchAdjustment now b a t =
     (if \<not> enabled t then t
      else
        t\<lparr> totalDeltas := (totalDeltas t)\<lparr> td_pitchRad := a - pitchRad (initialParams t) \<rparr>,
           logs := logs t @ [\<lparr> timestamp = now, logType = PitchType,
                               before = Num b, after = Num a, delta = Num (a - b) \<rparr>],
           currentParams := (currentParams t)\<lparr> pitchRad := a \<rparr> \<rparr>)"

definition logRollAdjustment :: "int \<Rightarrow> real \<Rightarrow> real \<Rightarrow> AdjustmentTracker \<Rightarrow> AdjustmentTracker" where
  "logRollAdjustment now b a t =
     (if \<not> enabled t then t
      else
        t\<lparr> totalDeltas := (totalDeltas t)\<lparr> td_rollRad := a - rollRad (initialParams t) \<rparr>,
           logs := logs t @ [\<lparr> timestamp = now, logType = RollType,
                               before = Num b, after = Num a, delta = Num (a - b) \<rparr>],
           currentParams := (currentParams t)\<lparr> rollRad := a \<rparr> \<rparr>)"

definition logPositionAdjustment ::
  "int \<Rightarrow> real \<Rightarrow> real \<Rightarrow> real \<Rightarrow> real \<Rightarrow> real \<Rightarrow> real \<Rightarrow> AdjustmentTracker \<Rightarrow> AdjustmentTracker" where
  "logPositionAdjustment now beforeE beforeN beforeU afterE afterN afterU t =
     (if \<not> enabled t then t
      else
        t\<lparr> totalDeltas := (totalDeltas t)\<lparr> td_tEast := afterE - tEast (initialParams t),
                                            td_tNorth := afterN - tNorth (initialParams t),
                                            td_tUp := afterU - tUp (initialParams t) \<rparr>,
           logs := logs t @ [\<lparr> timestamp = now, logType = PositionType,
                               before = ENU beforeE beforeN beforeU,
                               after = ENU afterE afterN afterU,
                               delta = ENU (afterE - beforeE) (afterN - beforeN) (afterU - beforeU) \<rparr>],
           currentParams := (currentParams t)\<lparr> tEast := afterE, tNorth := afterN, tUp := afterU \<rparr> \<rparr>)"

definition logHeightAdjustment :: "int \<Rightarrow> real \<Rightarrow> real \<Rightarrow> AdjustmentTracker \<Rightarrow> AdjustmentTracker" where
  "logHeightAdjustment now b a t =
     (if \<not> enabled t then t
      else
        t\<lparr> totalDeltas := (totalDeltas t)\<lparr> td_tUp := a - tUp (initialParams t) \<rparr>,
           logs := logs t @ [\<lparr> timestamp = now, logType = HeightType,
                               before = Num b, after = Num a, delta = Num (a - b) \<rparr>],
           currentParams := (currentParams t)\<lparr> tUp := a \<rparr> \<rparr>)"

definition reset :: "EnuParams \<Rightarrow> AdjustmentTracker \<Rightarrow> AdjustmentTracker" where
  "reset newInitialParams t =
     t\<lparr> initialParams := newInitialParams, currentParams := newInitialParams,
        logs := [], totalDeltas := zeroDeltas \<rparr>"

definition setEnabled :: "bool \<Rightarrow> AdjustmentTracker \<Rightarrow> AdjustmentTracker" where
  "setEnabled e t = t\<lparr> enabled := e \<rparr>"

section \<open>controllers/AlignmentController.ts\<close>

text \<open>
  The controller owns the parameters, the anchor and the tracker. Its methods end with
  \<^verbatim>\<open>applyTransformation()\<close>, which reads the parameters and writes only to the splat layer
  and its scene (rendering objects outside this state); it is called after the parameters
  and the tracker have been updated, so it has no part in their values.
\<close>

record Anchor =
  lat :: real
  lon :: real
  height :: real

record GaussianSplatLayer =
  sl_location :: Anchor
  sl_rotation :: Vec3   \<comment> \<open>\<^verbatim>\<open>rotation.x\<close>, \<^verbatim>\<open>rotation.y\<close>, \<^verbatim>\<open>rotation.z\<close>\<close>
  sl_scale :: real

record AlignmentController =
  enuParams :: EnuParams
  anchor :: Anchor
  tracker :: AdjustmentTracker

text \<open>The constructor: \<^verbatim>\<open>splatLayer.scale || 1.0\<close> replaces a zero scale by one.\<close>

definition initialEnuParams :: "GaussianSplatLayer \<Rightarrow> EnuParams" where
  "initialEnuParams splatLayer =
     (case sl_rotation splatLayer of (rx, ry, rz) \<Rightarrow>
        \<lparr> scale = (if sl_scale splatLayer = 0 then 1 else sl_scale splatLayer),
          yawRad = ry, pitchRad = rx, rollRad = rz,
          tEast = 0, tNorth = 0, tUp = 0,
          tiltLocked = False, alignRotation = None \<rparr>)"

definition newAlignmentController :: "GaussianSplatLayer \<Rightarrow> AlignmentController" where
  "newAlignmentController splatLayer =
     \<lparr> enuParams = initialEnuParams splatLayer,
       anchor = sl_location splatLayer,
       tracker = newAdjustmentTracker (initialEnuParams splatLayer) \<rparr>"

definition adjustScale :: "int \<Rightarrow> real \<Rightarrow> AlignmentController \<Rightarrow> AlignmentController" where
  "adjustScale now factor c =
     (let b = scale (enuParams c);
          a = max (1 / 10) (min 50 (scale (enuParams c) * factor))
      in c\<lparr> enuParams := (enuParams c)\<lparr> scale := a \<rparr>,
            tracker := logScaleAdjustment now b a (tracker c) \<rparr>)"

definition adjustYaw :: "int \<Rightarrow> real \<Rightarrow> AlignmentController \<Rightarrow> AlignmentController" where
  "adjustYaw now deltaRad c =
     (let b = yawRad (enuParams c);
          a = yawRad (enuParams c) + deltaRad
      in c\<lparr> enuParams := (enuParams c)\<lparr> yawRad := a \<rparr>,
            tracker := logYawAdjustment now b a (tracker c) \<rparr>)"

definition adjustPitch :: "int \<Rightarrow> real \<Rightarrow> AlignmentController \<Rightarrow> AlignmentController" where
  "adjustPitch now deltaRad c =
     (if tiltLocked (enuParams c) then c
      else
        let b = pitchRad (enuParams c);
            a = pitchRad (enuParams c) + deltaRad
        in c\<lparr> enuParams := (enuParams c)\<lparr> pitchRad := a \<rparr>,
              tracker := logPitchAdjustment now b a (tracker c) \<rparr>)"

definition adjustRoll :: "int \<Rightarrow> real \<Rightarrow> AlignmentController \<Rightarrow> AlignmentController" where
  "adjustRoll now deltaRad c =
     (if tiltLocked (enuParams c) then c
      else
        let b = rollRad (enuParams c);
            a = rollRad (enuParams c) + deltaRad
        in c\<lparr> enuParams := (enuParams c)\<lparr> rollRad := a \<rparr>,
              tracker := logRollAdjustment now b a (tracker c) \<rparr>)"

definition adjustPosition ::
  "int \<Rightarrow> real \<Rightarrow> real \<Rightarrow> real \<Rightarrow> AlignmentController \<Rightarrow> AlignmentController" where
  "adjustPosition now deltaEast deltaNorth deltaUp c =
     (let beforeE = tEast (enuParams c);
          beforeN = tNorth (enuParams c);
          beforeU = tUp (enuParams c);
          p = (enuParams c)\<lparr> tEast := beforeE + deltaEast,
                              tNorth := beforeN + deltaNorth,
                              tUp := beforeU + deltaUp \<rparr>
      in c\<lparr> enuParams := p,
            tracker := logPositionAdjustment now beforeE beforeN beforeU
                         (tEast p) (tNorth p) (tUp p) (tracker c) \<rparr>)"

text \<open>
  \<^verbatim>\<open>lockTilt(groundPoints?)\<close>: the early return for a missing or short list, then the
  \<^verbatim>\<open>try\<close> block; a throw of \<^verbatim>\<open>alignGroundToUp\<close> happens before any assignment and is caught.
\<close>

definition lockTilt :: "Vec3 list option \<Rightarrow> AlignmentController \<Rightarrow> AlignmentController" where
  "lockTilt groundPoints c =
     (case groundPoints of
        None \<Rightarrow> c
      | Some points \<Rightarrow>
          if length points < 3 then c
          else
            (case alignGroundToUp points of
               Inl e \<Rightarrow> c
             | Inr alignment \<Rightarrow>
                 c\<lparr> enuParams := (enuParams c)\<lparr> alignRotation := Some (pa_alignMatrix alignment),
                                                 tiltLocked := True,
                                                 pitchRad := 0,
                                                 rollRad := 0 \<rparr> \<rparr>))"

definition calibrateScaleFromRoadWidth :: "real \<Rightarrow> real \<Rightarrow> AlignmentController \<Rightarrow> AlignmentController" where
  "calibrateScaleFromRoadWidth trueWidthMeters measuredWidthUnits c =
     (case metersPerUnitFromRoadWidth trueWidthMeters measuredWidthUnits of
        Inl e \<Rightarrow> c
      | Inr newScale \<Rightarrow> c\<lparr> enuParams := (enuParams c)\<lparr> scale := newScale \<rparr> \<rparr>)"

definition getEnuParams :: "AlignmentController \<Rightarrow> EnuParams" where
  "getEnuParams c = enuParams c"

text \<open>\<^verbatim>\<open>Partial<EnuParams>\<close>: each key is present (\<open>Some\<close>) or absent (\<open>None\<close>).\<close>

record PartialEnuParams =
  set_scale :: "real option"
  set_yawRad :: "real option"
  set_pitchRad :: "real option"
  set_rollRad :: "real option"
  set_tEast :: "real option"
  set_tNorth :: "real option"
  set_tUp :: "real option"
  set_tiltLocked :: "bool option"
  set_alignRotation :: "real list option"

definition noParams :: PartialEnuParams where
  "noParams = \<lparr> set_scale = None, set_yawRad = None, set_pitchRad = None, set_rollRad = None,
                 set_tEast = None, set_tNorth = None, set_tUp = None,
                 set_tiltLocked = None, set_alignRotation = None \<rparr>"

text \<open>\<^verbatim>\<open>Object.assign(target, source)\<close>: every key present in the source overwrites.\<close>

definition assign :: "EnuParams \<Rightarrow> PartialEnuParams \<Rightarrow> EnuParams" where
  "assign p q =
     \<lparr> scale = (case set_scale q of None \<Rightarrow> scale p | Some v \<Rightarrow> v),
       yawRad = (case set_yawRad q of None \<Rightarrow> yawRad p | Some v \<Rightarrow> v),
       pitchRad = (case set_pitchRad q of None \<Rightarrow> pitchRad p | Some v \<Rightarrow> v),
       rollRad = (case set_rollRad q of None \<Rightarrow> rollRad p | Some v \<Rightarrow> v),
       tEast = (case set_tEast q of None \<Rightarrow> tEast p | Some v \<Rightarrow> v),
       tNorth = (case set_tNorth q of None \<Rightarrow> tNorth p | Some v \<Rightarrow> v),
       tUp = (case set_tUp q of None \<Rightarrow> tUp p | Some v \<Rightarrow> v),
       tiltLocked = (case set_tiltLocked q of None \<Rightarrow> tiltLocked p | Some v \<Rightarrow> v),
       alignRotation = (case set_alignRotation q of None \<Rightarrow> alignRotation p | Some v \<Rightarrow> Some v) \<rparr>"

text \<open>The destructuring \<^verbatim>\<open>{ pitchRad, rollRad, alignRotation, tiltLocked, ...safeParams }\<close>.\<close>

definition safeParams :: "PartialEnuParams \<Rightarrow> PartialEnuParams" where
  "safeParams q = q\<lparr> set_pitchRad := None, set_rollRad := None,
                     set_alignRotation := None, set_tiltLocked := None \<rparr>"

definition setEnuParams :: "PartialEnuParams \<Rightarrow> AlignmentController \<Rightarrow> AlignmentController" where
  "setEnuParams params c =
     (if tiltLocked (enuParams c)
      then c\<lparr> enuParams := assign (enuParams c) (safeParams params) \<rparr>
      else c\<lparr> enuParams := assign (enuParams c) params \<rparr>)"

section \<open>The Cesium matrices the composer calls\<close>

text \<open>
  \<^verbatim>\<open>Cesium.Matrix3\<close> and \<^verbatim>\<open>Cesium.Matrix4\<close> belong to the Cesium library. A matrix is
  Cesium's flat array in column-major order: the entry in row \<open>r\<close> and column \<open>c\<close> of a
  \<^verbatim>\<open>Matrix3\<close> is element \<open>3 * c + r\<close>, of a \<^verbatim>\<open>Matrix4\<close> element \<open>4 * c + r\<close>. The
  constructors list the elements in array order.
\<close>

datatype Matrix3 = Matrix3 real real real  real real real  real real real

datatype Matrix4 = Matrix4 real real real real  real real real real
                           real real real real  real real real real

text \<open>\<^verbatim>\<open>Matrix3.fromArray(array)\<close> copies \<^verbatim>\<open>array[0]\<close> to \<^verbatim>\<open>array[8]\<close> into the elements.
  With fewer than nine numbers some elements are \<^verbatim>\<open>undefined\<close>: no matrix of numbers
  results, which is \<^term>\<open>None\<close>.\<close>

fun Matrix3_fromArray :: "real list \<Rightarrow> Matrix3 option" where
  "Matrix3_fromArray (a0 # a1 # a2 # a3 # a4 # a5 # a6 # a7 # a8 # rest) =
     Some (Matrix3 a0 a1 a2 a3 a4 a5 a6 a7 a8)"
| "Matrix3_fromArray short = None"

definition Matrix3_fromRotationZ :: "real \<Rightarrow> Matrix3" where
  "Matrix3_fromRotationZ angle =
     Matrix3 (cos angle) (sin angle) 0  (- sin angle) (cos angle) 0  0 0 1"

definition Matrix3_fromRotationX :: "real \<Rightarrow> Matrix3" where
  "Matrix3_fromRotationX angle =
     Matrix3 1 0 0  0 (cos angle) (sin angle)  0 (- sin angle) (cos angle)"

definition Matrix3_fromRotationY :: "real \<Rightarrow> Matrix3" where
  "Matrix3_fromRotationY angle =
     Matrix3 (cos angle) 0 (- sin angle)  0 1 0  (sin angle) 0 (cos angle)"

fun Matrix3_multiply :: "Matrix3 \<Rightarrow> Matrix3 \<Rightarrow> Matrix3" where
  "Matrix3_multiply (Matrix3 l0 l1 l2 l3 l4 l5 l6 l7 l8) (Matrix3 r0 r1 r2 r3 r4 r5 r6 r7 r8) =
     Matrix3
       (l0 * r0 + l3 * r1 + l6 * r2)
       (l1 * r0 + l4 * r1 + l7 * r2)
       (l2 * r0 + l5 * r1 + l8 * r2)
       (l0 * r3 + l3 * r4 + l6 * r5)
       (l1 * r3 + l4 * r4 + l7 * r5)
       (l2 * r3 + l5 * r4 + l8 * r5)
       (l0 * r6 + l3 * r7 + l6 * r8)
       (l1 * r6 + l4 * r7 + l7 * r8)
       (l2 * r6 + l5 * r7 + l8 * r8)"

fun Matrix4_fromRotation :: "Matrix3 \<Rightarrow> Matrix4" where
  "Matrix4_fromRotation (Matrix3 r0 r1 r2 r3 r4 r5 r6 r7 r8) =
     Matrix4 r0 r1 r2 0  r3 r4 r5 0  r6 r7 r8 0  0 0 0 1"

fun Matrix4_fromScale :: "Vec3 \<Rightarrow> Matrix4" where
  "Matrix4_fromScale (sx, sy, sz) =
     Matrix4 sx 0 0 0  0 sy 0 0  0 0 sz 0  0 0 0 1"

fun Matrix4_fromTranslation :: "Vec3 \<Rightarrow> Matrix4" where
  "Matrix4_fromTranslation (tx, ty, tz) =
     Matrix4 1 0 0 0  0 1 0 0  0 0 1 0  tx ty tz 1"

fun Matrix4_multiply :: "Matrix4 \<Rightarrow> Matrix4 \<Rightarrow> Matrix4" where
  "Matrix4_multiply (Matrix4 l0 l1 l2 l3 l4 l5 l6 l7 l8 l9 l10 l11 l12 l13 l14 l15)
                    (Matrix4 r0 r1 r2 r3 r4 r5 r6 r7 r8 r9 r10 r11 r12 r13 r14 r15) =
     Matrix4
       (l0 * r0 + l4 * r1 + l8 * r2 + l12 * r3)
       (l1 * r0 + l5 * r1 + l9 * r2 + l13 * r3)
       (l2 * r0 + l6 * r1 + l10 * r2 + l14 * r3)
       (l3 * r0 + l7 * r1 + l11 * r2 + l15 * r3)
       (l0 * r4 + l4 * r5 + l8 * r6 + l12 * r7)
       (l1 * r4 + l5 * r5 + l9 * r6 + l13 * r7)
       (l2 * r4 + l6 * r5 + l10 * r6 + l14 * r7)
       (l3 * r4 + l7 * r5 + l11 * r6 + l15 * r7)
       (l0 * r8 + l4 * r9 + l8 * r10 + l12 * r11)
       (l1 * r8 + l5 * r9 + l9 * r10 + l13 * r11)
       (l2 * r8 + l6 * r9 + l10 * r10 + l14 * r11)
       (l3 * r8 + l7 * r9 + l11 * r10 + l15 * r11)
       (l0 * r12 + l4 * r13 + l8 * r14 + l12 * r15)
       (l1 * r12 + l5 * r13 + l9 * r14 + l13 * r15)
       (l2 * r12 + l6 * r13 + l10 * r14 + l14 * r15)
       (l3 * r12 + l7 * r13 + l11 * r14 + l15 * r15)"

section \<open>alignment/composeModelMatrix.ts\<close>

text \<open>
  The cache \<^verbatim>\<open>enuTransformCache\<close> is module state, passed in and returned. Its key is the
  string of three \<^verbatim>\<open>toFixed\<close> results. \<^verbatim>\<open>x.toFixed(f)\<close> prints the sign of a negative \<open>x\<close>
  and the integer \<open>n\<close> for which \<open>n / 10 ^ f\<close> is nearest to \<open>\<bar>x\<bar>\<close> (the larger on a tie);
  from \<open>10 ^ 21\<close> on it prints the number itself.
\<close>

datatype FixedString = Digits bool int | Plain real

definition toFixed :: "nat \<Rightarrow> real \<Rightarrow> FixedString" where
  "toFixed f x =
     (if 10 ^ 21 \<le> \<bar>x\<bar> then Plain x
      else Digits (x < 0) \<lfloor>\<bar>x\<bar> * 10 ^ f + 1 / 2\<rfloor>)"

type_synonym CacheKey = "FixedString \<times> FixedString \<times> FixedString"

definition cacheKey :: "Anchor \<Rightarrow> CacheKey" where
  "cacheKey a = (toFixed 8 (lat a), toFixed 8 (lon a), toFixed 2 (height a))"

record EnuTransforms =
  ecefToEnu :: Matrix4
  enuToEcef :: Matrix4

type_synonym EnuTransformCache = "CacheKey \<rightharpoonup> EnuTransforms"

text \<open>
  Two functions of Cesium are parameters of the composer:
  \<^item> \<open>eastNorthUpToFixedFrame\<close>, for
    \<^verbatim>\<open>Transforms.eastNorthUpToFixedFrame(Cartesian3.fromDegrees(lon, lat, height))\<close>: the
    matrix that takes coordinates in the east-north-up frame at the anchor to the
    Earth-fixed frame;
  \<^item> \<open>matrixInverse\<close>, for \<^verbatim>\<open>Matrix4.inverse\<close>.
\<close>

definition getCachedEnuTransforms ::
  "(Anchor \<Rightarrow> Matrix4) \<Rightarrow> (Matrix4 \<Rightarrow> Matrix4) \<Rightarrow> EnuTransformCache \<Rightarrow> Anchor
     \<Rightarrow> EnuTransforms \<times> EnuTransformCache" where
  "getCachedEnuTransforms eastNorthUpToFixedFrame matrixInverse cache a =
     (let key = cacheKey a in
      case cache key of
        Some entry \<Rightarrow> (entry, cache)
      | None \<Rightarrow>
          (let e2n = eastNorthUpToFixedFrame a;
               n2e = matrixInverse e2n;
               entry = \<lparr> ecefToEnu = e2n, enuToEcef = n2e \<rparr>
           in (entry, cache(key \<mapsto> entry))))"

text \<open>The rotation \<^verbatim>\<open>R\<close> of \<^verbatim>\<open>composeModelMatrixENU\<close>: an array is truthy whatever its
  length, so the first branch is taken when the flag is set and the array is present.\<close>

definition enuRotation :: "EnuParams \<Rightarrow> Matrix4 option" where
  "enuRotation p =
     (if tiltLocked p \<and> alignRotation p \<noteq> None then
        (case Matrix3_fromArray (the (alignRotation p)) of
           None \<Rightarrow> None
         | Some alignMatrix \<Rightarrow>
             (let yawMatrix = Matrix3_fromRotationZ (yawRad p);
                  finalRotation = Matrix3_multiply alignMatrix yawMatrix
              in Some (Matrix4_fromRotation finalRotation)))
      else
        (let Rz = Matrix3_fromRotationZ (yawRad p);
             Rx = Matrix3_fromRotationX (pitchRad p);
             Ry = Matrix3_fromRotationY (rollRad p);
             Rm = Matrix3_multiply (Matrix3_multiply Rz Rx) Ry
         in Some (Matrix4_fromRotation Rm)))"

definition composeModelMatrixENU ::
  "(Anchor \<Rightarrow> Matrix4) \<Rightarrow> (Matrix4 \<Rightarrow> Matrix4) \<Rightarrow> EnuTransformCache \<Rightarrow> Anchor \<Rightarrow> EnuParams
     \<Rightarrow> Matrix4 option \<times> EnuTransformCache" where
  "composeModelMatrixENU eastNorthUpToFixedFrame matrixInverse cache a p =
     (case getCachedEnuTransforms eastNorthUpToFixedFrame matrixInverse cache a of
        (entry, cache') \<Rightarrow>
          (let S = Matrix4_fromScale (scale p, scale p, scale p);
               T = Matrix4_fromTranslation (tEast p, tNorth p, tUp p)
           in (case enuRotation p of
                 None \<Rightarrow> None
               | Some R \<Rightarrow>
                   (let M_ENU = Matrix4_multiply T (Matrix4_multiply R S)
                    in Some (Matrix4_multiply (Matrix4_multiply (enuToEcef entry) M_ENU)
                                              (ecefToEnu entry))),
               cache')))"

section \<open>Notions the claims are stated with\<close>

text \<open>
  A unit quaternion \<^verbatim>\<open>[x, y, z, w]\<close> turns by the angle \<open>\<theta>\<close> about the unit axis \<open>u\<close> when
  it is \<open>(u sin (\<theta> / 2), cos (\<theta> / 2))\<close> or its negative. For a half turn (180 degrees)
  that is \<open>(u, 0)\<close> or \<open>(- u, 0)\<close>.
\<close>

definition halfTurnAbout :: "Vec3 \<Rightarrow> Quat \<Rightarrow> bool" where
  "halfTurnAbout u q =
     (case u of (u0, u1, u2) \<Rightarrow> q = (u0, u1, u2, 0) \<or> q = (- u0, - u1, - u2, 0))"

section \<open>Sequences of controller operations\<close>

text \<open>One constructor for each mutating method of the controller; an operation that logs
  carries the time of its call.\<close>

datatype ControllerOp =
    AdjustScale int real
  | AdjustYaw int real
  | AdjustPitch int real
  | AdjustRoll int real
  | AdjustPosition int real real real
  | LockTilt "Vec3 list option"
  | CalibrateScaleFromRoadWidth real real
  | SetEnuParams PartialEnuParams

fun applyOp :: "ControllerOp \<Rightarrow> AlignmentController \<Rightarrow> AlignmentController" where
  "applyOp (AdjustScale now factor) c = adjustScale now factor c"
| "applyOp (AdjustYaw now d) c = adjustYaw now d c"
| "applyOp (AdjustPitch now d) c = adjustPitch now d c"
| "applyOp (AdjustRoll now d) c = adjustRoll now d c"
| "applyOp (AdjustPosition now de dn du) c = adjustPosition now de dn du c"
| "applyOp (LockTilt groundPoints) c = lockTilt groundPoints c"
| "applyOp (CalibrateScaleFromRoadWidth t m) c = calibrateScaleFromRoadWidth t m c"
| "applyOp (SetEnuParams params) c = setEnuParams params c"

definition runOps :: "ControllerOp list \<Rightarrow> AlignmentController \<Rightarrow> AlignmentController" where
  "runOps ops c = fold applyOp ops c"

definition tiltInvariant :: "EnuParams \<Rightarrow> bool" where
  "tiltInvariant p = (tiltLocked p \<longrightarrow> pitchRad p = 0 \<and> rollRad p = 0)"

definition unitSplat :: GaussianSplatLayer where
  "unitSplat = \<lparr> sl_location = \<lparr> lat = 0, lon = 0, height = 0 \<rparr>,
                 sl_rotation = (0, 0, 0), sl_scale = 1 \<rparr>"

text \<open>An operation that writes \<^verbatim>\<open>tiltLocked: true\<close> through \<^verbatim>\<open>setEnuParams\<close>.\<close>

definition setsTiltLocked :: "ControllerOp \<Rightarrow> bool" where
  "setsTiltLocked op = (case op of SetEnuParams q \<Rightarrow> set_tiltLocked q = Some True | _ \<Rightarrow> False)"

section \<open>Matrices as the claims read them\<close>

text \<open>
  A matrix in the mathematical reading is its entries by row and column, counted from 0.
  \<open>entry3\<close> reads a Cesium \<^verbatim>\<open>Matrix3\<close> that way; \<open>rotZ\<close>, \<open>rotX\<close>, \<open>rotY\<close> are the rotations
  about the Up (z), East (x) and North (y) axes, and \<open>times3\<close> is the matrix product.
\<close>

type_synonym matrix = "nat \<Rightarrow> nat \<Rightarrow> real"

definition entry3 :: "Matrix3 \<Rightarrow> matrix" where
  "entry3 m r c =
     (case m of Matrix3 m0 m1 m2 m3 m4 m5 m6 m7 m8 \<Rightarrow>
        [m0, m1, m2, m3, m4, m5, m6, m7, m8] ! (3 * c + r))"

definition rotZ :: "real \<Rightarrow> matrix" where
  "rotZ \<theta> r c = [[cos \<theta>, - sin \<theta>, 0], [sin \<theta>, cos \<theta>, 0], [0, 0, 1]] ! r ! c"

definition rotX :: "real \<Rightarrow> matrix" where
  "rotX \<theta> r c = [[1, 0, 0], [0, cos \<theta>, - sin \<theta>], [0, sin \<theta>, cos \<theta>]] ! r ! c"

definition rotY :: "real \<Rightarrow> matrix" where
  "rotY \<theta> r c = [[cos \<theta>, 0, sin \<theta>], [0, 1, 0], [- sin \<theta>, 0, cos \<theta>]] ! r ! c"

definition times3 :: "matrix \<Rightarrow> matrix \<Rightarrow> matrix" where
  "times3 A B r c = (\<Sum>k<3. A r k * B k c)"

section \<open>Example inputs\<close>

definition levelParams :: EnuParams where
  "levelParams = \<lparr> scale = 1, yawRad = 0, pitchRad = 0, rollRad = 0,
                    tEast = 0, tNorth = 0, tUp = 0,
                    tiltLocked = False, alignRotation = None \<rparr>"

text \<open>
  The anchor at latitude 0, longitude 0, height 0, and the matrix Cesium's
  \<^verbatim>\<open>eastNorthUpToFixedFrame\<close> returns there on the WGS84 ellipsoid: the columns are east
  \<open>(0, 1, 0)\<close>, north \<open>(0, 0, 1)\<close>, up \<open>(1, 0, 0)\<close> and the origin \<open>(6378137, 0, 0)\<close>.
  \<open>inverseTransformation\<close> inverts a matrix made of a rotation and a translation (transposed
  rotation, translation turned back and negated); on such a matrix it is what
  \<^verbatim>\<open>Matrix4.inverse\<close> returns.
\<close>

definition equatorFrame :: Matrix4 where
  "equatorFrame = Matrix4 0 1 0 0  0 0 1 0  1 0 0 0  6378137 0 0 1"

definition equatorAnchor :: Anchor where
  "equatorAnchor = \<lparr> lat = 0, lon = 0, height = 0 \<rparr>"

fun inverseTransformation :: "Matrix4 \<Rightarrow> Matrix4" where
  "inverseTransformation (Matrix4 m0 m1 m2 m3 m4 m5 m6 m7 m8 m9 m10 m11 m12 m13 m14 m15) =
     Matrix4 m0 m4 m8 0  m1 m5 m9 0  m2 m6 m10 0
       (- (m0 * m12 + m1 * m13 + m2 * m14))
       (- (m4 * m12 + m5 * m13 + m6 * m14))
       (- (m8 * m12 + m9 * m13 + m10 * m14))
       1"

definition Matrix4_IDENTITY :: Matrix4 where
  "Matrix4_IDENTITY = Matrix4 1 0 0 0  0 1 0 0  0 0 1 0  0 0 0 1"

text \<open>
  The matrix of the specification: \<open>localToWorld \<cdot> M_local \<cdot> worldToLocal\<close> with
  \<open>M_local = T \<cdot> R \<cdot> S\<close>, for a given frame matrix and its inverse.
\<close>

definition specWorldMatrix :: "Matrix4 \<Rightarrow> Matrix4 \<Rightarrow> EnuParams \<Rightarrow> Matrix4 option" where
  "specWorldMatrix localToWorld worldToLocal p =
     (case enuRotation p of
        None \<Rightarrow> None
      | Some R \<Rightarrow>
          (let S = Matrix4_fromScale (scale p, scale p, scale p);
               T = Matrix4_fromTranslation (tEast p, tNorth p, tUp p);
               M_local = Matrix4_multiply T (Matrix4_multiply R S)
           in Some (Matrix4_multiply (Matrix4_multiply localToWorld M_local) worldToLocal)))"


section \<open>Sequences of logging calls\<close>

text \<open>
  One constructor for each logging method of the tracker, with the arguments of the call.
  \<open>latest f calls\<close> is the value \<open>f\<close> gives for the last call of the list for which it gives
  one: with \<open>afterScale\<close>, \<open>afterYaw\<close>, ... the latest after-value logged for that total.
  The total \<open>tUp\<close> is written by both a position and a height call.
\<close>

datatype LogCall =
    LogScale int real real
  | LogYaw int real real
  | LogPitch int real real
  | LogRoll int real real
  | LogPosition int real real real real real real
  | LogHeight int real real

fun applyLog :: "LogCall \<Rightarrow> AdjustmentTracker \<Rightarrow> AdjustmentTracker" where
  "applyLog (LogScale now b a) t = logScaleAdjustment now b a t"
| "applyLog (LogYaw now b a) t = logYawAdjustment now b a t"
| "applyLog (LogPitch now b a) t = logPitchAdjustment now b a t"
| "applyLog (LogRoll now b a) t = logRollAdjustment now b a t"
| "applyLog (LogPosition now bE bN bU aE aN aU) t = logPositionAdjustment now bE bN bU aE aN aU t"
| "applyLog (LogHeight now b a) t = logHeightAdjustment now b a t"

definition runLogs :: "LogCall list \<Rightarrow> AdjustmentTracker \<Rightarrow> AdjustmentTracker" where
  "runLogs calls t = fold applyLog calls t"

fun afterScale :: "LogCall \<Rightarrow> real option" where
  "afterScale (LogScale now b a) = Some a"
| "afterScale other = None"

fun afterYaw :: "LogCall \<Rightarrow> real option" where
  "afterYaw (LogYaw now b a) = Some a"
| "afterYaw other = None"

fun afterPitch :: "LogCall \<Rightarrow> real option" where
  "afterPitch (LogPitch now b a) = Some a"
| "afterPitch other = None"

fun afterRoll :: "LogCall \<Rightarrow> real option" where
  "afterRoll (LogRoll now b a) = Some a"
| "afterRoll other = None"

fun afterEast :: "LogCall \<Rightarrow> real option" where
  "afterEast (LogPosition now bE bN bU aE aN aU) = Some aE"
| "afterEast other = None"

fun afterNorth :: "LogCall \<Rightarrow> real option" where
  "afterNorth (LogPosition now bE bN bU aE aN aU) = Some aN"
| "afterNorth other = None"

fun afterUp :: "LogCall \<Rightarrow> real option" where
  "afterUp (LogPosition now bE bN bU aE aN aU) = Some aU"
| "afterUp (LogHeight now b a) = Some a"
| "afterUp other = None"

primrec latest :: "(LogCall \<Rightarrow> real option) \<Rightarrow> LogCall list \<Rightarrow> real option" where
  "latest f [] = None"
| "latest f (c # calls) = (case latest f calls of Some a \<Rightarrow> Some a | None \<Rightarrow> f c)"

fun callBefore :: "LogCall \<Rightarrow> LogValue" where
  "callBefore (LogScale now b a) = Num b"
| "callBefore (LogYaw now b a) = Num b"
| "callBefore (LogPitch now b a) = Num b"
| "callBefore (LogRoll now b a) = Num b"
| "callBefore (LogPosition now bE bN bU aE aN aU) = ENU bE bN bU"
| "callBefore (LogHeight now b a) = Num b"

fun callAfter :: "LogCall \<Rightarrow> LogValue" where
  "callAfter (LogScale now b a) = Num a"
| "callAfter (LogYaw now b a) = Num a"
| "callAfter (LogPitch now b a) = Num a"
| "callAfter (LogRoll now b a) = Num a"
| "callAfter (LogPosition now bE bN bU aE aN aU) = ENU aE aN aU"
| "callAfter (LogHeight now b a) = Num a"

section \<open>A tilted ground sample\<close>

text \<open>
  Three ground points around the origin whose plane has the normal \<open>(0, 24/25, 7/25)\<close>, and
  the controller after \<^verbatim>\<open>lockTilt\<close> on them. \<open>rowMajor3\<close> reads a flat array of nine numbers
  row after row, the layout in which \<^verbatim>\<open>quaternionToMatrix3\<close> writes the leveling rotation
  (its comment: row-major 3x3 matrix as flat array); \<open>timesVec3\<close> applies a matrix to a
  vector.
\<close>

definition tiltedGround :: "Vec3 list" where
  "tiltedGround = [(1, 0, 0), (0, 7, - 24), (- 1, - 7, 24)]"

definition leveledController :: AlignmentController where
  "leveledController = lockTilt (Some tiltedGround) (newAlignmentController unitSplat)"

definition rowMajor3 :: "real list \<Rightarrow> matrix" where
  "rowMajor3 a r c = a ! (3 * r + c)"

fun timesVec3 :: "matrix \<Rightarrow> Vec3 \<Rightarrow> Vec3" where
  "timesVec3 M (x, y, z) =
     (M 0 0 * x + M 0 1 * y + M 0 2 * z,
      M 1 0 * x + M 1 1 * y + M 1 2 * z,
      M 2 0 * x + M 2 1 * y + M 2 2 * z)"

section \<open>Plane fitting: the special cases of the quaternion\<close>

lemma normalizeVec_unit:
  assumes "dot a a = 1"
  shows "normalizeVec a = a"
  using assms by (cases a) simp

lemma normalizeVec_tiny:
  "vlength v < 1 / 10 ^ 10 \<Longrightarrow> normalizeVec v = (0, 0, 1)"
  by (cases v) (simp add: Let_def)

lemma normalizeVec_large:
  assumes "1 / 10 ^ 20 \<le> dot v v"
  shows "dot (normalizeVec v) (normalizeVec v) = 1"
    and "dot (normalizeVec v) w = dot v w / vlength v"
proof -
  obtain x y z where v: "v = (x, y, z)" by (cases v)
  obtain p q r where w: "w = (p, q, r)" by (cases w)
  define n where "n = x * x + y * y + z * z"
  have n: "1 / 10 ^ 20 \<le> n" using assms v by (simp add: n_def)
  have "(1 / 10 ^ 10)\<^sup>2 \<le> n" using n by (simp add: power2_eq_square)
  then have big: "1 / 10 ^ 10 \<le> sqrt n" by (rule real_le_rsqrt)
  have tiny: "(0::real) < 1 / 10 ^ 10" by simp
  have pos: "0 < sqrt n" using big tiny by linarith
  have npos: "0 < n" using pos by simp
  have nz: "normalizeVec v = (x / sqrt n, y / sqrt n, z / sqrt n)"
    using big v by (simp add: Let_def n_def)
  have "dot (normalizeVec v) (normalizeVec v) = x * x / n + y * y / n + z * z / n"
    using npos by (simp add: nz)
  also have "\<dots> = n / n" by (simp only: n_def add_divide_distrib)
  also have "\<dots> = 1" using npos by simp
  finally show "dot (normalizeVec v) (normalizeVec v) = 1" .
  have "dot (normalizeVec v) w = dot (x / sqrt n, y / sqrt n, z / sqrt n) (p, q, r)"
    by (simp only: nz w)
  also have "\<dots> = dot v w / vlength v"
    by (simp add: v w add_divide_distrib n_def)
  finally show "dot (normalizeVec v) w = dot v w / vlength v" .
qed

lemma quaternionBetween_up_up: "quaternionBetween (0, 0, 1) (0, 0, 1) = (0, 0, 0, 1)"
  by (simp add: quaternionBetween_def Let_def)

lemma alignmentOfNormal_up:
  "alignmentOfNormal (0, 0, 1) =
     \<lparr> pa_quat = (0, 0, 0, 1), pa_pitchRad = 0, pa_rollRad = 0,
       pa_alignMatrix = [1, 0, 0, 0, 1, 0, 0, 0, 1] \<rparr>"
  by (simp add: alignmentOfNormal_def quaternionBetween_up_up atan2_def Let_def)

text \<open>
  C5, as the code has it. For unit vectors \<open>a\<close> and \<open>b\<close>: when their dot product exceeds
  \<open>0.999999\<close> the result is the identity quaternion; when it is below \<open>-0.999999\<close> the
  result is \<open>(c, 0)\<close>, the half turn about \<open>c = normalize (a \<times> h)\<close>, where the helper \<open>h\<close> is
  \<open>(1, 0, 0)\<close> unless \<open>\<bar>a.x\<bar> > 0.9\<close>, in which case it is \<open>(0, 1, 0)\<close>; \<open>c\<close> is a unit vector
  orthogonal to \<open>a\<close>.
\<close>

theorem quaternionBetween_special_cases:
  assumes a: "dot a a = 1" and b: "dot b b = 1"
  shows "(dot a b > 999999 / 1000000 \<longrightarrow> quaternionBetween a b = (0, 0, 0, 1))
       \<and> (dot a b < - (999999 / 1000000) \<longrightarrow>
            (\<exists>c. c = normalizeVec (crossProduct a (if \<bar>fst a\<bar> > 9 / 10 then (0, 1, 0) else (1, 0, 0)))
               \<and> quaternionBetween a b = (fst c, fst (snd c), snd (snd c), 0)
               \<and> halfTurnAbout c (quaternionBetween a b)
               \<and> dot c c = 1 \<and> dot c a = 0))"
proof -
  obtain a0 a1 a2 where av: "a = (a0, a1, a2)" by (cases a)
  have na: "normalizeVec a = a" and nb: "normalizeVec b = b"
    using a b by (simp_all add: normalizeVec_unit)
  have one: "a0 * a0 + a1 * a1 + a2 * a2 = 1" using a av by simp
  define h :: Vec3 where "h = (if \<bar>fst a\<bar> > 9 / 10 then (0, 1, 0) else (1, 0, 0))"
  define v where "v = crossProduct a h"
  have first: "dot a b > 999999 / 1000000 \<Longrightarrow> quaternionBetween a b = (0, 0, 0, 1)"
    by (simp add: quaternionBetween_def na nb Let_def)
  have q: "quaternionBetween a b =
        (fst (normalizeVec v), fst (snd (normalizeVec v)), snd (snd (normalizeVec v)), 0)"
    if "dot a b < - (999999 / 1000000)"
    using that by (simp add: quaternionBetween_def na nb Let_def v_def h_def)
  have orth: "dot v a = 0"
    by (simp add: v_def h_def av)
  have big: "1 / 10 ^ 20 \<le> dot v v"
  proof (cases "\<bar>a0\<bar> > 9 / 10")
    case True
    have "(9 / 10) * (9 / 10) \<le> \<bar>a0\<bar> * \<bar>a0\<bar>"
      using True by (intro mult_mono) auto
    then have "81 / 100 \<le> a0 * a0" by simp
    moreover have "0 \<le> a2 * a2" by simp
    ultimately have "81 / 100 \<le> a2 * a2 + a0 * a0" by linarith
    then show ?thesis using True by (simp add: v_def h_def av)
  next
    case False
    have "\<bar>a0\<bar> * \<bar>a0\<bar> \<le> (9 / 10) * (9 / 10)"
      using False by (intro mult_mono) auto
    then have "a0 * a0 \<le> 81 / 100" by simp
    then have "19 / 100 \<le> a2 * a2 + a1 * a1" using one by linarith
    then show ?thesis using False by (simp add: v_def h_def av)
  qed
  have unit: "dot (normalizeVec v) (normalizeVec v) = 1" "dot (normalizeVec v) a = 0"
    using normalizeVec_large [OF big] orth by simp_all
  have half: "halfTurnAbout (normalizeVec v) (quaternionBetween a b)"
    if "dot a b < - (999999 / 1000000)"
    using q [OF that] by (cases "normalizeVec v") (simp add: halfTurnAbout_def)
  have second: "dot a b < - (999999 / 1000000) \<Longrightarrow>
      (\<exists>c. c = normalizeVec (crossProduct a (if \<bar>fst a\<bar> > 9 / 10 then (0, 1, 0) else (1, 0, 0)))
               \<and> quaternionBetween a b = (fst c, fst (snd c), snd (snd c), 0)
               \<and> halfTurnAbout c (quaternionBetween a b)
               \<and> dot c c = 1 \<and> dot c a = 0)"
    using q half unit unfolding v_def h_def by blast
  show ?thesis using first second by blast
qed

lemma quaternionBetween_x_minus_x: "quaternionBetween (1, 0, 0) (- 1, 0, 0) = (0, 0, 1, 0)"
  by (simp add: quaternionBetween_def Let_def)

theorem quaternionBetween_special_cases_witness:
  "dot (1, 0, 0) (1, 0, 0) = 1 \<and> dot (- 1, 0, 0) (- 1, 0, 0) = 1
   \<and> dot (1, 0, 0) (- 1, 0, 0) < - (999999 / 1000000)
   \<and> halfTurnAbout (0, 0, 1) (quaternionBetween (1, 0, 0) (- 1, 0, 0))
   \<and> dot (0, 1, 0) (0, 1, 0) > 999999 / 1000000
   \<and> quaternionBetween (0, 1, 0) (0, 1, 0) = (0, 0, 0, 1)"
proof -
  have u1: "dot (1, 0, 0) (1, 0, 0) = 1" and u2: "dot (- 1, 0, 0) (- 1, 0, 0) = 1"
    and u3: "dot (0, 1, 0) (0, 1, 0) = 1"
    by simp_all
  have anti: "dot (1, 0, 0) (- 1, 0, 0) < - (999999 / 1000000)" by simp
  have par: "dot (0, 1, 0) (0, 1, 0) > 999999 / 1000000" by simp
  have c: "normalizeVec (crossProduct (1, 0, 0) (if \<bar>fst (1 :: real, 0 :: real, 0 :: real)\<bar> > 9 / 10
             then (0, 1, 0) else (1, 0, 0))) = (0, 0, 1)"
    by simp
  from quaternionBetween_special_cases [OF u1 u2] anti c
  have "halfTurnAbout (0, 0, 1) (quaternionBetween (1, 0, 0) (- 1, 0, 0))"
    by (simp add: halfTurnAbout_def)
  moreover from quaternionBetween_special_cases [OF u3 u3] par
  have "quaternionBetween (0, 1, 0) (0, 1, 0) = (0, 0, 0, 1)"
    by blast
  ultimately show ?thesis using u1 u2 anti par by blast
qed

text \<open>
  C5, as stated, fails: \<open>a = (1, 0, 0)\<close> and \<open>b = (-1, 0, 0)\<close> are unit vectors with dot
  product \<open>-1\<close>, and the result is the half turn about \<open>(0, 0, 1)\<close>: neither a half turn
  about \<open>(0, 1, 0)\<close> nor one about \<open>(1, 0, 0)\<close>.
\<close>

theorem quaternionBetween_fixed_axis_counterexample:
  "dot (1, 0, 0) (1, 0, 0) = 1 \<and> dot (- 1, 0, 0) (- 1, 0, 0) = 1
   \<and> dot (1, 0, 0) (- 1, 0, 0) < - (999999 / 1000000)
   \<and> quaternionBetween (1, 0, 0) (- 1, 0, 0) = (0, 0, 1, 0)
   \<and> \<not> halfTurnAbout (0, 1, 0) (quaternionBetween (1, 0, 0) (- 1, 0, 0))
   \<and> \<not> halfTurnAbout (1, 0, 0) (quaternionBetween (1, 0, 0) (- 1, 0, 0))"
  by (simp add: quaternionBetween_x_minus_x halfTurnAbout_def)

section \<open>Calibration and tilt lock in the controller\<close>

lemma estimatePlaneNormal_few:
  "length points < 3 \<Longrightarrow> estimatePlaneNormal points = Inl InsufficientData"
  by (simp add: estimatePlaneNormal_def)

text \<open>
  C4. With fewer than three points plane fitting throws (the \<open>InsufficientData\<close> error; no
  normal is returned, so there is no fallback normal), and \<^verbatim>\<open>lockTilt\<close> called with such a
  list returns the controller as it was: every field of its parameters is unchanged.
\<close>

theorem too_few_points_rejected:
  assumes "length points < 3"
  shows "estimatePlaneNormal points = Inl InsufficientData
       \<and> alignGroundToUp points = Inl InsufficientData
       \<and> enuParams (lockTilt (Some points) c) = enuParams c
       \<and> lockTilt (Some points) c = c"
  using assms by (simp add: estimatePlaneNormal_few alignGroundToUp_def lockTilt_def)

theorem too_few_points_rejected_witness:
  "length [(0, 0, 0), (1, 2, 3) :: Vec3] < 3
   \<and> estimatePlaneNormal [(0, 0, 0), (1, 2, 3)] = Inl InsufficientData
   \<and> alignGroundToUp [(0, 0, 0), (1, 2, 3)] = Inl InsufficientData
   \<and> enuParams (lockTilt (Some [(0, 0, 0), (1, 2, 3)]) (newAlignmentController unitSplat))
       = enuParams (newAlignmentController unitSplat)
   \<and> lockTilt (Some [(0, 0, 0), (1, 2, 3)]) (newAlignmentController unitSplat)
       = newAlignmentController unitSplat"
proof -
  have h: "length [(0, 0, 0), (1, 2, 3) :: Vec3] < 3" by simp
  show ?thesis
    using too_few_points_rejected [OF h, of "newAlignmentController unitSplat"] h by blast
qed

text \<open>
  C6. The road-width calibrator throws (\<open>InvalidMeasurement\<close>) exactly when the measured
  width is \<open>\<le> 0\<close>; otherwise it returns the exact quotient of the true by the measured
  width. When it throws, \<^verbatim>\<open>calibrateScaleFromRoadWidth\<close> leaves the controller, and so its
  scale, as it was.
\<close>

theorem road_width_calibrator:
  "(isl (metersPerUnitFromRoadWidth t m) \<longleftrightarrow> m \<le> 0)
   \<and> (m \<le> 0 \<longrightarrow> metersPerUnitFromRoadWidth t m = Inl InvalidMeasurement)
   \<and> (0 < m \<longrightarrow> metersPerUnitFromRoadWidth t m = Inr (t / m))
   \<and> (m \<le> 0 \<longrightarrow> calibrateScaleFromRoadWidth t m c = c
                  \<and> scale (enuParams (calibrateScaleFromRoadWidth t m c)) = scale (enuParams c))"
  by (simp add: metersPerUnitFromRoadWidth_def calibrateScaleFromRoadWidth_def)

theorem road_width_calibrator_witness:
  "(0 :: real) < 4 \<and> metersPerUnitFromRoadWidth 12 4 = Inr 3
   \<and> (0 :: real) \<le> 0 \<and> metersPerUnitFromRoadWidth 12 0 = Inl InvalidMeasurement
   \<and> calibrateScaleFromRoadWidth 12 0 (newAlignmentController unitSplat)
       = newAlignmentController unitSplat
   \<and> (- 1 :: real) \<le> 0 \<and> metersPerUnitFromRoadWidth 12 (- 1) = Inl InvalidMeasurement"
  using road_width_calibrator [of 12 4 "newAlignmentController unitSplat"]
        road_width_calibrator [of 12 0 "newAlignmentController unitSplat"]
        road_width_calibrator [of 12 "- 1" "newAlignmentController unitSplat"]
  by simp

text \<open>
  C10. A successful \<^verbatim>\<open>calibrateScaleFromRoadWidth\<close> (measured width positive) assigns the
  raw quotient to \<open>scale\<close> and changes no other parameter; the tracker, and so its log, is
  as before. \<^verbatim>\<open>adjustScale\<close>, in contrast, always ends with a scale in \<open>[0.1, 50]\<close>. The
  witness has a calibrated scale of 100, outside those bounds.
\<close>

theorem calibration_assigns_raw_ratio:
  assumes "0 < m"
  shows "enuParams (calibrateScaleFromRoadWidth t m c) = (enuParams c)\<lparr> scale := t / m \<rparr>
       \<and> scale (enuParams (calibrateScaleFromRoadWidth t m c)) = t / m
       \<and> tracker (calibrateScaleFromRoadWidth t m c) = tracker c
       \<and> logs (tracker (calibrateScaleFromRoadWidth t m c)) = logs (tracker c)
       \<and> anchor (calibrateScaleFromRoadWidth t m c) = anchor c
       \<and> 1 / 10 \<le> scale (enuParams (adjustScale now factor c))
       \<and> scale (enuParams (adjustScale now factor c)) \<le> 50"
  using assms
  by (simp add: metersPerUnitFromRoadWidth_def calibrateScaleFromRoadWidth_def adjustScale_def Let_def)

theorem calibration_assigns_raw_ratio_witness:
  "(0 :: real) < 1
   \<and> scale (enuParams (calibrateScaleFromRoadWidth 100 1 (newAlignmentController unitSplat))) = 100
   \<and> \<not> scale (enuParams (calibrateScaleFromRoadWidth 100 1 (newAlignmentController unitSplat))) \<le> 50
   \<and> logs (tracker (calibrateScaleFromRoadWidth 100 1 (newAlignmentController unitSplat))) = []
   \<and> scale (enuParams (adjustScale 0 100 (newAlignmentController unitSplat))) \<le> 50"
proof -
  have h: "(0 :: real) < 1" by simp
  have l: "logs (tracker (newAlignmentController unitSplat)) = []"
    by (simp add: newAlignmentController_def newAdjustmentTracker_def)
  show ?thesis
    using calibration_assigns_raw_ratio [OF h, of 100 "newAlignmentController unitSplat" 0 100] l
    by simp
qed

section \<open>The adjustment tracker\<close>

lemmas log_defs = logScaleAdjustment_def logYawAdjustment_def logPitchAdjustment_def
  logRollAdjustment_def logPositionAdjustment_def logHeightAdjustment_def

lemma applyLog_keeps:
  assumes "enabled t"
  shows "enabled (applyLog c t)" and "initialParams (applyLog c t) = initialParams t"
    and "map before (logs (applyLog c t)) = map before (logs t) @ [callBefore c]"
    and "map after (logs (applyLog c t)) = map after (logs t) @ [callAfter c]"
  using assms by (cases c; simp add: log_defs Let_def)+

lemma runLogs_keeps:
  assumes "enabled t"
  shows "enabled (runLogs calls t) \<and> initialParams (runLogs calls t) = initialParams t
       \<and> map before (logs (runLogs calls t)) = map before (logs t) @ map callBefore calls
       \<and> map after (logs (runLogs calls t)) = map after (logs t) @ map callAfter calls"
  using assms unfolding runLogs_def
proof (induction calls arbitrary: t)
  case Nil
  then show ?case by simp
next
  case (Cons c calls)
  have e: "enabled (applyLog c t)" using Cons.prems by (rule applyLog_keeps)
  show ?case
    using Cons.IH [OF e] applyLog_keeps(2-4) [OF Cons.prems, of c] by simp
qed

lemma runLogs_total:
  assumes step: "\<And>c t. enabled t \<Longrightarrow>
      g (totalDeltas (applyLog c t)) =
        (case f c of None \<Rightarrow> g (totalDeltas t) | Some a \<Rightarrow> v (initialParams t) a)"
    and "enabled t"
  shows "g (totalDeltas (runLogs calls t)) =
        (case latest f calls of None \<Rightarrow> g (totalDeltas t) | Some a \<Rightarrow> v (initialParams t) a)"
  using assms(2) unfolding runLogs_def
proof (induction calls arbitrary: t)
  case Nil
  then show ?case by simp
next
  case (Cons c calls)
  have e: "enabled (applyLog c t)" using Cons.prems by (rule applyLog_keeps)
  have i: "initialParams (applyLog c t) = initialParams t" using Cons.prems by (rule applyLog_keeps)
  show ?case
    using Cons.IH [OF e] step [OF Cons.prems, of c]
    by (simp add: i split: option.splits)
qed

lemma applyLog_totals:
  assumes "enabled t"
  shows "td_scale (totalDeltas (applyLog c t)) =
           (case afterScale c of None \<Rightarrow> td_scale (totalDeltas t)
            | Some a \<Rightarrow> a / scale (initialParams t))"
    and "td_yawRad (totalDeltas (applyLog c t)) =
           (case afterYaw c of None \<Rightarrow> td_yawRad (totalDeltas t)
            | Some a \<Rightarrow> a - yawRad (initialParams t))"
    and "td_pitchRad (totalDeltas (applyLog c t)) =
           (case afterPitch c of None \<Rightarrow> td_pitchRad (totalDeltas t)
            | Some a \<Rightarrow> a - pitchRad (initialParams t))"
    and "td_rollRad (totalDeltas (applyLog c t)) =
           (case afterRoll c of None \<Rightarrow> td_rollRad (totalDeltas t)
            | Some a \<Rightarrow> a - rollRad (initialParams t))"
    and "td_tEast (totalDeltas (applyLog c t)) =
           (case afterEast c of None \<Rightarrow> td_tEast (totalDeltas t)
            | Some a \<Rightarrow> a - tEast (initialParams t))"
    and "td_tNorth (totalDeltas (applyLog c t)) =
           (case afterNorth c of None \<Rightarrow> td_tNorth (totalDeltas t)
            | Some a \<Rightarrow> a - tNorth (initialParams t))"
    and "td_tUp (totalDeltas (applyLog c t)) =
           (case afterUp c of None \<Rightarrow> td_tUp (totalDeltas t)
            | Some a \<Rightarrow> a - tUp (initialParams t))"
  using assms by (cases c; simp add: log_defs Let_def)+

lemma adjustScale_tracker:
  "tracker (adjustScale now f c) =
     logScaleAdjustment now (scale (enuParams c))
       (max (1 / 10) (min 50 (scale (enuParams c) * f))) (tracker c)"
  "scale (enuParams (adjustScale now f c)) = max (1 / 10) (min 50 (scale (enuParams c) * f))"
  by (simp_all add: adjustScale_def Let_def)

lemma adjustScale_twice_general:
  fixes splat f t1 t2
  defines "s0 \<equiv> scale (initialEnuParams splat)"
  defines "s1 \<equiv> max (1 / 10) (min 50 (s0 * f))"
  defines "s2 \<equiv> max (1 / 10) (min 50 (s1 * f))"
  defines "c2 \<equiv> adjustScale t2 f (adjustScale t1 f (newAlignmentController splat))"
  shows "td_scale (totalDeltas (tracker c2)) = s2 / s0"
    and "map before (logs (tracker c2)) = [Num s0, Num s1]"
    and "map after (logs (tracker c2)) = [Num s1, Num s2]"
    and "scale (enuParams c2) = s2"
proof -
  define c0 where "c0 = newAlignmentController splat"
  have c0: "scale (enuParams c0) = s0" "tracker c0 = newAdjustmentTracker (initialEnuParams splat)"
    by (simp_all add: c0_def newAlignmentController_def s0_def)
  have t2: "tracker c2 = runLogs [LogScale t1 s0 s1, LogScale t2 s1 s2]
              (newAdjustmentTracker (initialEnuParams splat))"
    by (simp add: c2_def adjustScale_tracker runLogs_def c0 [unfolded c0_def] s1_def s2_def)
  have e: "enabled (newAdjustmentTracker (initialEnuParams splat))"
    and i: "scale (initialParams (newAdjustmentTracker (initialEnuParams splat))) = s0"
    and l: "logs (newAdjustmentTracker (initialEnuParams splat)) = []"
    by (simp_all add: newAdjustmentTracker_def s0_def)
  show "td_scale (totalDeltas (tracker c2)) = s2 / s0"
    using runLogs_total [where g = td_scale and f = afterScale and v = "\<lambda>p a. a / scale p"
        and calls = "[LogScale t1 s0 s1, LogScale t2 s1 s2]", OF applyLog_totals(1) e]
    by (simp add: t2 i)
  show "map before (logs (tracker c2)) = [Num s0, Num s1]"
    using runLogs_keeps [OF e, of "[LogScale t1 s0 s1, LogScale t2 s1 s2]"] by (simp add: t2 l)
  show "map after (logs (tracker c2)) = [Num s1, Num s2]"
    using runLogs_keeps [OF e, of "[LogScale t1 s0 s1, LogScale t2 s1 s2]"] by (simp add: t2 l)
  show "scale (enuParams c2) = s2"
    by (simp add: c2_def adjustScale_tracker c0 [unfolded c0_def] s1_def s2_def)
qed

text \<open>
  C8, as the code has it. Take a tracker with tracking enabled and any sequence of logging
  calls. Logging leaves tracking enabled and never changes the initial parameters of the
  session. Afterwards every total that some call of the sequence has logged is the latest
  after-value logged for it minus its initial value (for scale, with a non-zero initial
  scale: the latest after-value divided by the initial scale), whatever the befores and the
  earlier entries were; a total no call has logged is as before. The log has gained one entry
  for each call, with that call's before and after. And from a fresh controller with initial
  scale \<open>s0\<close>, two calls \<^verbatim>\<open>adjustScale(f)\<close> give the scales \<open>s1 = clamp (s0 * f)\<close> and
  \<open>s2 = clamp (s1 * f)\<close>, the total scale delta \<open>s2 / s0\<close> and a log of two entries with the
  befores \<open>s0\<close>, \<open>s1\<close> and the afters \<open>s1\<close>, \<open>s2\<close>; for \<open>s0 = 1\<close> and \<open>f = 1.1\<close> the total
  is the product \<open>1.1 * 1.1\<close>.
\<close>

theorem totalDeltas_after_logging:
  assumes "enabled t"
  shows "enabled (runLogs calls t) \<and> initialParams (runLogs calls t) = initialParams t
       \<and> (scale (initialParams t) \<noteq> 0 \<longrightarrow>
            td_scale (totalDeltas (runLogs calls t)) =
              (case latest afterScale calls of None \<Rightarrow> td_scale (totalDeltas t)
               | Some a \<Rightarrow> a / scale (initialParams t)))
       \<and> td_yawRad (totalDeltas (runLogs calls t)) =
              (case latest afterYaw calls of None \<Rightarrow> td_yawRad (totalDeltas t)
               | Some a \<Rightarrow> a - yawRad (initialParams t))
       \<and> td_pitchRad (totalDeltas (runLogs calls t)) =
              (case latest afterPitch calls of None \<Rightarrow> td_pitchRad (totalDeltas t)
               | Some a \<Rightarrow> a - pitchRad (initialParams t))
       \<and> td_rollRad (totalDeltas (runLogs calls t)) =
              (case latest afterRoll calls of None \<Rightarrow> td_rollRad (totalDeltas t)
               | Some a \<Rightarrow> a - rollRad (initialParams t))
       \<and> td_tEast (totalDeltas (runLogs calls t)) =
              (case latest afterEast calls of None \<Rightarrow> td_tEast (totalDeltas t)
               | Some a \<Rightarrow> a - tEast (initialParams t))
       \<and> td_tNorth (totalDeltas (runLogs calls t)) =
              (case latest afterNorth calls of None \<Rightarrow> td_tNorth (totalDeltas t)
               | Some a \<Rightarrow> a - tNorth (initialParams t))
       \<and> td_tUp (totalDeltas (runLogs calls t)) =
              (case latest afterUp calls of None \<Rightarrow> td_tUp (totalDeltas t)
               | Some a \<Rightarrow> a - tUp (initialParams t))
       \<and> map before (logs (runLogs calls t)) = map before (logs t) @ map callBefore calls
       \<and> map after (logs (runLogs calls t)) = map after (logs t) @ map callAfter calls
       \<and> (let s0 = scale (initialEnuParams splat);
               s1 = max (1 / 10) (min 50 (s0 * f));
               s2 = max (1 / 10) (min 50 (s1 * f));
               c2 = adjustScale t2 f (adjustScale t1 f (newAlignmentController splat))
           in td_scale (totalDeltas (tracker c2)) = s2 / s0
            \<and> map before (logs (tracker c2)) = [Num s0, Num s1]
            \<and> map after (logs (tracker c2)) = [Num s1, Num s2])"
proof -
  note k = runLogs_keeps [OF assms, of calls]
  have 1: "td_scale (totalDeltas (runLogs calls t)) =
              (case latest afterScale calls of None \<Rightarrow> td_scale (totalDeltas t)
               | Some a \<Rightarrow> a / scale (initialParams t))"
    by (rule runLogs_total [where g = td_scale and f = afterScale and v = "\<lambda>p a. a / scale p", OF _ assms]) (rule applyLog_totals)
  have 2: "td_yawRad (totalDeltas (runLogs calls t)) =
              (case latest afterYaw calls of None \<Rightarrow> td_yawRad (totalDeltas t)
               | Some a \<Rightarrow> a - yawRad (initialParams t))"
    by (rule runLogs_total [where g = td_yawRad and f = afterYaw and v = "\<lambda>p a. a - yawRad p", OF _ assms]) (rule applyLog_totals)
  have 3: "td_pitchRad (totalDeltas (runLogs calls t)) =
              (case latest afterPitch calls of None \<Rightarrow> td_pitchRad (totalDeltas t)
               | Some a \<Rightarrow> a - pitchRad (initialParams t))"
    by (rule runLogs_total [where g = td_pitchRad and f = afterPitch and v = "\<lambda>p a. a - pitchRad p", OF _ assms]) (rule applyLog_totals)
  have 4: "td_rollRad (totalDeltas (runLogs calls t)) =
              (case latest afterRoll calls of None \<Rightarrow> td_rollRad (totalDeltas t)
               | Some a \<Rightarrow> a - rollRad (initialParams t))"
    by (rule runLogs_total [where g = td_rollRad and f = afterRoll and v = "\<lambda>p a. a - rollRad p", OF _ assms]) (rule applyLog_totals)
  have 5: "td_tEast (totalDeltas (runLogs calls t)) =
              (case latest afterEast calls of None \<Rightarrow> td_tEast (totalDeltas t)
               | Some a \<Rightarrow> a - tEast (initialParams t))"
    by (rule runLogs_total [where g = td_tEast and f = afterEast and v = "\<lambda>p a. a - tEast p", OF _ assms]) (rule applyLog_totals)
  have 6: "td_tNorth (totalDeltas (runLogs calls t)) =
              (case latest afterNorth calls of None \<Rightarrow> td_tNorth (totalDeltas t)
               | Some a \<Rightarrow> a - tNorth (initialParams t))"
    by (rule runLogs_total [where g = td_tNorth and f = afterNorth and v = "\<lambda>p a. a - tNorth p", OF _ assms]) (rule applyLog_totals)
  have 7: "td_tUp (totalDeltas (runLogs calls t)) =
              (case latest afterUp calls of None \<Rightarrow> td_tUp (totalDeltas t)
               | Some a \<Rightarrow> a - tUp (initialParams t))"
    by (rule runLogs_total [where g = td_tUp and f = afterUp and v = "\<lambda>p a. a - tUp p", OF _ assms]) (rule applyLog_totals)
  have 8: "(let s0 = scale (initialEnuParams splat);
               s1 = max (1 / 10) (min 50 (s0 * f));
               s2 = max (1 / 10) (min 50 (s1 * f));
               c2 = adjustScale t2 f (adjustScale t1 f (newAlignmentController splat))
           in td_scale (totalDeltas (tracker c2)) = s2 / s0
            \<and> map before (logs (tracker c2)) = [Num s0, Num s1]
            \<and> map after (logs (tracker c2)) = [Num s1, Num s2])"
    unfolding Let_def using adjustScale_twice_general(1-3) [of t2 f t1 splat] by blast
  show ?thesis
    using k 1 2 3 4 5 6 7 8 by blast
qed

theorem totalDeltas_after_logging_witness:
  "enabled (newAdjustmentTracker (initialEnuParams unitSplat))
   \<and> scale (initialParams (newAdjustmentTracker (initialEnuParams unitSplat))) \<noteq> 0
   \<and> td_yawRad (totalDeltas (runLogs [LogYaw 1 0 (1 / 2), LogScale 2 1 2, LogYaw 3 (1 / 2) (3 / 4)]
          (newAdjustmentTracker (initialEnuParams unitSplat)))) = 3 / 4
   \<and> td_scale (totalDeltas (runLogs [LogYaw 1 0 (1 / 2), LogScale 2 1 2, LogYaw 3 (1 / 2) (3 / 4)]
          (newAdjustmentTracker (initialEnuParams unitSplat)))) = 2
   \<and> map after (logs (runLogs [LogYaw 1 0 (1 / 2), LogScale 2 1 2, LogYaw 3 (1 / 2) (3 / 4)]
          (newAdjustmentTracker (initialEnuParams unitSplat)))) = [Num (1 / 2), Num 2, Num (3 / 4)]
   \<and> td_scale (totalDeltas (tracker
          (adjustScale 2 (11 / 10) (adjustScale 1 (11 / 10) (newAlignmentController unitSplat)))))
       = 11 / 10 * (11 / 10)
   \<and> map after (logs (tracker
          (adjustScale 2 (11 / 10) (adjustScale 1 (11 / 10) (newAlignmentController unitSplat)))))
       = [Num (11 / 10), Num (11 / 10 * (11 / 10))]"
proof -
  define t0 where "t0 = newAdjustmentTracker (initialEnuParams unitSplat)"
  have e: "enabled t0" and i: "scale (initialParams t0) = 1" "yawRad (initialParams t0) = 0"
    and l: "logs t0 = []"
    by (simp_all add: t0_def newAdjustmentTracker_def initialEnuParams_def unitSplat_def)
  have s: "scale (initialEnuParams unitSplat) = 1"
    by (simp add: initialEnuParams_def unitSplat_def)
  show ?thesis
    using totalDeltas_after_logging [OF e,
        of "[LogYaw 1 0 (1 / 2), LogScale 2 1 2, LogYaw 3 (1 / 2) (3 / 4)]" unitSplat "11 / 10" 2 1]
      e i l
    unfolding t0_def [symmetric] by (simp add: s Let_def)
qed

text \<open>
  C8, as stated, fails after \<^verbatim>\<open>setEnabled(false)\<close>: a logging call is then a no-op. With
  initial scale 1, \<^verbatim>\<open>logScaleAdjustment(1, 2)\<close> leaves the total scale delta at 0, not
  at \<open>2 / 1\<close>, and appends nothing.
\<close>

theorem disabled_tracker_counterexample:
  "td_scale (totalDeltas (logScaleAdjustment 0 1 2
      (setEnabled False (newAdjustmentTracker (initialEnuParams unitSplat))))) = 0
   \<and> 2 / scale (initialParams (setEnabled False (newAdjustmentTracker (initialEnuParams unitSplat)))) = 2
   \<and> logs (logScaleAdjustment 0 1 2
      (setEnabled False (newAdjustmentTracker (initialEnuParams unitSplat)))) = []"
  by (simp add: logScaleAdjustment_def setEnabled_def newAdjustmentTracker_def zeroDeltas_def
      initialEnuParams_def unitSplat_def)

section \<open>The tilt-lock invariant\<close>

text \<open>The invariant holds at construction and every operation keeps it, except a
  \<^verbatim>\<open>setEnuParams\<close> that writes \<^verbatim>\<open>tiltLocked: true\<close> while the controller is unlocked.\<close>

lemma tiltInvariant_initial: "tiltInvariant (enuParams (newAlignmentController splat))"
  by (simp add: tiltInvariant_def newAlignmentController_def initialEnuParams_def split: prod.split)

lemma tiltInvariant_applyOp:
  assumes "tiltInvariant (enuParams c)" and "tiltLocked (enuParams c) \<or> \<not> setsTiltLocked op"
  shows "tiltInvariant (enuParams (applyOp op c))"
proof (cases op)
  case (SetEnuParams q)
  then show ?thesis
    using assms
    by (auto simp: tiltInvariant_def setEnuParams_def assign_def safeParams_def setsTiltLocked_def
        split: option.splits)
next
  case (LockTilt g)
  then show ?thesis
    using assms
    by (auto simp: tiltInvariant_def lockTilt_def split: option.splits sum.splits)
qed (use assms in \<open>auto simp: tiltInvariant_def adjustScale_def adjustYaw_def adjustPitch_def
      adjustRoll_def adjustPosition_def calibrateScaleFromRoadWidth_def Let_def split: sum.splits\<close>)

lemma tiltInvariant_runOps:
  assumes "tiltInvariant (enuParams c)" and "\<forall>op \<in> set ops. \<not> setsTiltLocked op"
  shows "tiltInvariant (enuParams (runOps ops c))"
  using assms unfolding runOps_def
  by (induction ops arbitrary: c) (simp_all add: tiltInvariant_applyOp)

lemma locked_blocks_pitch_and_roll:
  assumes "tiltLocked (enuParams c)"
  shows "adjustPitch now d c = c" and "adjustRoll now d c = c"
    and "yawRad (enuParams (adjustYaw now d c)) = yawRad (enuParams c) + d"
    and "tiltLocked (enuParams (adjustYaw now d c))"
  using assms by (simp_all add: adjustPitch_def adjustRoll_def adjustYaw_def Let_def)

text \<open>
  C7 at a failing input: on a fresh controller, \<^verbatim>\<open>setEnuParams({pitchRad: 0.1,
  tiltLocked: true})\<close> takes the unguarded branch and assigns both keys. The state reached is
  tilt-locked with pitch 0.1.
\<close>

theorem setEnuParams_breaks_tilt_invariant:
  "tiltLocked (enuParams (runOps
      [SetEnuParams (noParams\<lparr> set_pitchRad := Some (1 / 10), set_tiltLocked := Some True \<rparr>)]
      (newAlignmentController unitSplat)))
   \<and> pitchRad (enuParams (runOps
      [SetEnuParams (noParams\<lparr> set_pitchRad := Some (1 / 10), set_tiltLocked := Some True \<rparr>)]
      (newAlignmentController unitSplat))) = 1 / 10
   \<and> pitchRad (enuParams (runOps
      [SetEnuParams (noParams\<lparr> set_pitchRad := Some (1 / 10), set_tiltLocked := Some True \<rparr>)]
      (newAlignmentController unitSplat))) \<noteq> 0"
  by (simp add: runOps_def setEnuParams_def assign_def noParams_def
      newAlignmentController_def initialEnuParams_def unitSplat_def)

section \<open>The rotation of the composer\<close>

lemma sum_below_3: "(\<Sum>k<3. f k) = f 0 + f 1 + f (2 :: nat)"
  by (simp add: numeral_3_eq_3 numeral_2_eq_2)

lemma below_3: "r < 3 \<longleftrightarrow> r = 0 \<or> r = 1 \<or> r = (2 :: nat)"
  by auto

lemma entry3_multiply:
  assumes "r < 3" and "c < 3"
  shows "entry3 (Matrix3_multiply A B) r c = times3 (entry3 A) (entry3 B) r c"
proof -
  obtain a0 a1 a2 a3 a4 a5 a6 a7 a8 where A: "A = Matrix3 a0 a1 a2 a3 a4 a5 a6 a7 a8"
    by (cases A)
  obtain b0 b1 b2 b3 b4 b5 b6 b7 b8 where B: "B = Matrix3 b0 b1 b2 b3 b4 b5 b6 b7 b8"
    by (cases B)
  from assms show ?thesis
    unfolding below_3 A B
    by (elim disjE) (simp_all add: entry3_def times3_def sum_below_3)
qed

lemma entry3_rotations:
  assumes "r < 3" and "c < 3"
  shows "entry3 (Matrix3_fromRotationZ \<theta>) r c = rotZ \<theta> r c"
    and "entry3 (Matrix3_fromRotationX \<theta>) r c = rotX \<theta> r c"
    and "entry3 (Matrix3_fromRotationY \<theta>) r c = rotY \<theta> r c"
  using assms unfolding below_3
  by (auto simp: entry3_def rotZ_def rotX_def rotY_def
      Matrix3_fromRotationZ_def Matrix3_fromRotationX_def Matrix3_fromRotationY_def)

lemma times3_cong:
  assumes "\<And>k. k < 3 \<Longrightarrow> A r k = A' r k" and "\<And>k. k < 3 \<Longrightarrow> B k c = B' k c"
  shows "times3 A B r c = times3 A' B' r c"
  unfolding times3_def using assms by (intro sum.cong) auto

lemma legacy_rotation_entries:
  assumes "r < 3" and "c < 3"
  shows "entry3 (Matrix3_multiply (Matrix3_multiply (Matrix3_fromRotationZ y) (Matrix3_fromRotationX p))
                    (Matrix3_fromRotationY q)) r c
         = times3 (times3 (rotZ y) (rotX p)) (rotY q) r c"
proof -
  have "entry3 (Matrix3_multiply (Matrix3_multiply (Matrix3_fromRotationZ y) (Matrix3_fromRotationX p))
                    (Matrix3_fromRotationY q)) r c
        = times3 (entry3 (Matrix3_multiply (Matrix3_fromRotationZ y) (Matrix3_fromRotationX p)))
                 (entry3 (Matrix3_fromRotationY q)) r c"
    using assms by (rule entry3_multiply)
  also have "\<dots> = times3 (times3 (entry3 (Matrix3_fromRotationZ y)) (entry3 (Matrix3_fromRotationX p)))
                 (rotY q) r c"
    using assms by (intro times3_cong) (simp_all add: entry3_multiply entry3_rotations)
  also have "\<dots> = times3 (times3 (rotZ y) (rotX p)) (rotY q) r c"
  proof (rule times3_cong)
    fix k :: nat assume "k < 3"
    then show "times3 (entry3 (Matrix3_fromRotationZ y)) (entry3 (Matrix3_fromRotationX p)) r k
               = times3 (rotZ y) (rotX p) r k"
      using assms by (intro times3_cong) (simp_all add: entry3_rotations)
  qed simp
  finally show ?thesis .
qed

lemma locked_rotation_entries:
  assumes "r < 3" and "c < 3"
  shows "entry3 (Matrix3_multiply A (Matrix3_fromRotationZ y)) r c = times3 (entry3 A) (rotZ y) r c"
proof -
  have "entry3 (Matrix3_multiply A (Matrix3_fromRotationZ y)) r c
        = times3 (entry3 A) (entry3 (Matrix3_fromRotationZ y)) r c"
    using assms by (rule entry3_multiply)
  also have "\<dots> = times3 (entry3 A) (rotZ y) r c"
    using assms by (intro times3_cong) (simp_all add: entry3_rotations)
  finally show ?thesis .
qed

text \<open>
  What the composer computes, entry by entry: \<open>Rz(yaw) \<cdot> Rx(pitch) \<cdot> Ry(roll)\<close> when the
  parameters are not tilt-locked, and \<open>A \<cdot> Rz(yaw)\<close> when they are tilt-locked and the cached
  array is present, \<open>A\<close> being the matrix \<^verbatim>\<open>Matrix3.fromArray\<close> makes of the array, which
  reads it column after column. The rotation does not depend on scale or translation;
  unlocked it does not depend on the cached array, and locked with the array present it
  does not depend on pitch or roll.
\<close>

lemma enuRotation_entries:
  "(\<not> tiltLocked p \<longrightarrow>
      (\<exists>R. enuRotation p = Some (Matrix4_fromRotation R)
          \<and> (\<forall>r<3. \<forall>c<3. entry3 R r c =
                times3 (times3 (rotZ (yawRad p)) (rotX (pitchRad p))) (rotY (rollRad p)) r c)))
   \<and> (tiltLocked p \<longrightarrow>
      (\<forall>arr A. alignRotation p = Some arr \<and> Matrix3_fromArray arr = Some A \<longrightarrow>
         (\<exists>R. enuRotation p = Some (Matrix4_fromRotation R)
            \<and> (\<forall>r<3. \<forall>c<3. entry3 R r c = times3 (entry3 A) (rotZ (yawRad p)) r c))))
   \<and> enuRotation (p\<lparr> scale := s, tEast := e, tNorth := n, tUp := u \<rparr>) = enuRotation p
   \<and> (\<not> tiltLocked p \<longrightarrow> enuRotation (p\<lparr> alignRotation := x \<rparr>) = enuRotation p)
   \<and> (tiltLocked p \<and> alignRotation p \<noteq> None \<longrightarrow>
        enuRotation (p\<lparr> pitchRad := pr, rollRad := rr \<rparr>) = enuRotation p)"
proof -
  have legacy: "\<exists>R. enuRotation p = Some (Matrix4_fromRotation R)
          \<and> (\<forall>r<3. \<forall>c<3. entry3 R r c =
                times3 (times3 (rotZ (yawRad p)) (rotX (pitchRad p))) (rotY (rollRad p)) r c)"
    if "\<not> tiltLocked p"
  proof -
    have "enuRotation p = Some (Matrix4_fromRotation
        (Matrix3_multiply (Matrix3_multiply (Matrix3_fromRotationZ (yawRad p))
           (Matrix3_fromRotationX (pitchRad p))) (Matrix3_fromRotationY (rollRad p))))"
      using that by (simp add: enuRotation_def Let_def)
    then show ?thesis using legacy_rotation_entries by blast
  qed
  have locked: "\<exists>R. enuRotation p = Some (Matrix4_fromRotation R)
            \<and> (\<forall>r<3. \<forall>c<3. entry3 R r c = times3 (entry3 A) (rotZ (yawRad p)) r c)"
    if "tiltLocked p" and "alignRotation p = Some arr" and "Matrix3_fromArray arr = Some A" for arr A
  proof -
    have "enuRotation p = Some (Matrix4_fromRotation
        (Matrix3_multiply A (Matrix3_fromRotationZ (yawRad p))))"
      using that by (simp add: enuRotation_def Let_def)
    then show ?thesis using locked_rotation_entries by blast
  qed
  have frame: "enuRotation (p\<lparr> scale := s, tEast := e, tNorth := n, tUp := u \<rparr>) = enuRotation p"
    by (auto simp: enuRotation_def Let_def split: option.splits)
  have f2: "enuRotation (p\<lparr> alignRotation := x \<rparr>) = enuRotation p" if "\<not> tiltLocked p"
    using that by (simp add: enuRotation_def Let_def)
  have f3: "enuRotation (p\<lparr> pitchRad := pr, rollRad := rr \<rparr>) = enuRotation p"
    if "tiltLocked p \<and> alignRotation p \<noteq> None"
    using that by (auto simp: enuRotation_def Let_def split: option.splits)
  show ?thesis
    using legacy locked frame f2 f3 by blast
qed

lemma sqrt_625: "sqrt 625 = 25"
proof -
  have "sqrt (25 * 25) = \<bar>25 :: real\<bar>" by (rule real_sqrt_abs2)
  then show ?thesis by simp
qed

lemma sqrt_64_25: "sqrt (64 / 25) = 8 / 5"
proof -
  have "sqrt ((8 / 5) * (8 / 5)) = \<bar>8 / 5 :: real\<bar>" by (rule real_sqrt_abs2)
  then show ?thesis by simp
qed

lemma estimatePlaneNormal_tiltedGround:
  "estimatePlaneNormal tiltedGround = Inr (0, 24 / 25, 7 / 25)"
  by (simp add: estimatePlaneNormal_def tiltedGround_def centered_def centroidOf_def Let_def sqrt_625)

lemma quaternionBetween_tilted:
  "quaternionBetween (0, 24 / 25, 7 / 25) (0, 0, 1) = (3 / 5, 0, 0, 4 / 5)"
  by (simp add: quaternionBetween_def Let_def sqrt_64_25)

lemma alignGroundToUp_tiltedGround:
  "\<exists>al. alignGroundToUp tiltedGround = Inr al
     \<and> pa_alignMatrix al = [1, 0, 0, 0, 7 / 25, - (24 / 25), 0, 24 / 25, 7 / 25]"
  by (simp add: alignGroundToUp_def estimatePlaneNormal_tiltedGround alignmentOfNormal_def
      quaternionBetween_tilted Let_def)

lemma leveledController_params:
  "tiltLocked (enuParams leveledController)"
  "yawRad (enuParams leveledController) = 0"
  "alignRotation (enuParams leveledController)
     = Some [1, 0, 0, 0, 7 / 25, - (24 / 25), 0, 24 / 25, 7 / 25]"
  using alignGroundToUp_tiltedGround
  by (auto simp: leveledController_def lockTilt_def tiltedGround_def newAlignmentController_def
      initialEnuParams_def unitSplat_def)

text \<open>
  C2 at a failing input: the parameters \<^verbatim>\<open>lockTilt\<close> leaves for the tilted ground sample,
  with yaw 0. The cached array is the leveling rotation written row after row; it takes the
  estimated normal to Up, and its product with \<open>Rz(0)\<close> has \<open>-24/25\<close> in row 1, column 2. The
  composer reads the array column after column: its rotation has \<open>24/25\<close> there, is the
  transpose of the cached rotation, and takes the normal to \<open>(0, 336/625, -527/625)\<close>.
\<close>

theorem composer_transposes_cached_rotation:
  "estimatePlaneNormal tiltedGround = Inr (0, 24 / 25, 7 / 25)
   \<and> tiltLocked (enuParams leveledController)
   \<and> yawRad (enuParams leveledController) = 0
   \<and> alignRotation (enuParams leveledController)
       = Some [1, 0, 0, 0, 7 / 25, - (24 / 25), 0, 24 / 25, 7 / 25]
   \<and> timesVec3 (rowMajor3 [1, 0, 0, 0, 7 / 25, - (24 / 25), 0, 24 / 25, 7 / 25]) (0, 24 / 25, 7 / 25)
       = (0, 0, 1)
   \<and> times3 (rowMajor3 [1, 0, 0, 0, 7 / 25, - (24 / 25), 0, 24 / 25, 7 / 25]) (rotZ 0) 1 2
       = - (24 / 25)
   \<and> enuRotation (enuParams leveledController)
       = Some (Matrix4 1 0 0 0  0 (7 / 25) (- (24 / 25)) 0  0 (24 / 25) (7 / 25) 0  0 0 0 1)
   \<and> Matrix4_fromRotation (Matrix3 1 0 0  0 (7 / 25) (- (24 / 25))  0 (24 / 25) (7 / 25))
       = Matrix4 1 0 0 0  0 (7 / 25) (- (24 / 25)) 0  0 (24 / 25) (7 / 25) 0  0 0 0 1
   \<and> entry3 (Matrix3 1 0 0  0 (7 / 25) (- (24 / 25))  0 (24 / 25) (7 / 25)) 1 2 = 24 / 25
   \<and> timesVec3 (entry3 (Matrix3 1 0 0  0 (7 / 25) (- (24 / 25))  0 (24 / 25) (7 / 25)))
        (0, 24 / 25, 7 / 25) = (0, 336 / 625, - (527 / 625))"
proof -
  have r: "enuRotation (enuParams leveledController)
       = Some (Matrix4 1 0 0 0  0 (7 / 25) (- (24 / 25)) 0  0 (24 / 25) (7 / 25) 0  0 0 0 1)"
    "Matrix4_fromRotation (Matrix3 1 0 0  0 (7 / 25) (- (24 / 25))  0 (24 / 25) (7 / 25))
       = Matrix4 1 0 0 0  0 (7 / 25) (- (24 / 25)) 0  0 (24 / 25) (7 / 25) 0  0 0 0 1"
    by (simp_all add: enuRotation_def leveledController_params Let_def Matrix3_fromRotationZ_def)
  have m: "timesVec3 (rowMajor3 [1, 0, 0, 0, 7 / 25, - (24 / 25), 0, 24 / 25, 7 / 25]) (0, 24 / 25, 7 / 25)
       = (0, 0, 1)"
    "times3 (rowMajor3 [1, 0, 0, 0, 7 / 25, - (24 / 25), 0, 24 / 25, 7 / 25]) (rotZ 0) 1 2
       = - (24 / 25)"
    "entry3 (Matrix3 1 0 0  0 (7 / 25) (- (24 / 25))  0 (24 / 25) (7 / 25)) 1 2 = 24 / 25"
    "timesVec3 (entry3 (Matrix3 1 0 0  0 (7 / 25) (- (24 / 25))  0 (24 / 25) (7 / 25)))
        (0, 24 / 25, 7 / 25) = (0, 336 / 625, - (527 / 625))"
    by (simp_all add: rowMajor3_def times3_def sum_below_3 rotZ_def entry3_def numeral_2_eq_2)
  show ?thesis
    using estimatePlaneNormal_tiltedGround leveledController_params r m by blast
qed

section \<open>The composed matrix\<close>

lemma inverseTransformation_equatorFrame:
  "Matrix4_multiply (inverseTransformation equatorFrame) equatorFrame = Matrix4_IDENTITY"
  "Matrix4_multiply equatorFrame (inverseTransformation equatorFrame) = Matrix4_IDENTITY"
  by (simp_all add: equatorFrame_def Matrix4_IDENTITY_def)

lemma getCachedEnuTransforms_miss:
  "cache (cacheKey a) = None \<Longrightarrow>
     fst (getCachedEnuTransforms F G cache a) = \<lparr> ecefToEnu = F a, enuToEcef = G (F a) \<rparr>"
  by (simp add: getCachedEnuTransforms_def Let_def)

lemma getCachedEnuTransforms_hit:
  "cache (cacheKey a) = Some entry \<Longrightarrow> getCachedEnuTransforms F G cache a = (entry, cache)"
  by (simp add: getCachedEnuTransforms_def Let_def)

lemma composeModelMatrixENU_value:
  assumes "enuRotation p = Some R"
  shows "fst (composeModelMatrixENU F G cache a p) =
     Some (Matrix4_multiply
            (Matrix4_multiply (enuToEcef (fst (getCachedEnuTransforms F G cache a)))
               (Matrix4_multiply (Matrix4_fromTranslation (tEast p, tNorth p, tUp p))
                  (Matrix4_multiply R (Matrix4_fromScale (scale p, scale p, scale p)))))
            (ecefToEnu (fst (getCachedEnuTransforms F G cache a))))"
  using assms by (simp add: composeModelMatrixENU_def Let_def split: prod.split)

lemma enuRotation_levelParams:
  "enuRotation (levelParams\<lparr> scale := s, tEast := e, tNorth := n, tUp := u \<rparr>) = Some Matrix4_IDENTITY"
  by (simp add: enuRotation_def levelParams_def Let_def Matrix4_IDENTITY_def
      Matrix3_fromRotationZ_def Matrix3_fromRotationX_def Matrix3_fromRotationY_def)

lemma equator_miss:
  "fst (getCachedEnuTransforms (\<lambda>a. equatorFrame) inverseTransformation Map.empty equatorAnchor)
     = \<lparr> ecefToEnu = equatorFrame, enuToEcef = inverseTransformation equatorFrame \<rparr>"
  by (simp add: getCachedEnuTransforms_miss)

text \<open>
  C1 at a failing input: the anchor at latitude 0, longitude 0, height 0, an empty cache and
  level parameters with \<open>tEast = 1\<close>. The source stores the matrix of
  \<^verbatim>\<open>eastNorthUpToFixedFrame\<close> as \<^verbatim>\<open>ecefToEnu\<close> and its inverse as \<^verbatim>\<open>enuToEcef\<close>, so it returns
  \<open>worldToLocal \<cdot> M_local \<cdot> localToWorld\<close>: the translation by \<open>(0, 0, 1)\<close>. The matrix of the
  specification is the translation by \<open>(0, 1, 0)\<close>, one metre to the east.
\<close>

theorem composer_conjugates_with_swapped_frames:
  "fst (composeModelMatrixENU (\<lambda>a. equatorFrame) inverseTransformation Map.empty equatorAnchor
          (levelParams\<lparr> scale := 1, tEast := 1, tNorth := 0, tUp := 0 \<rparr>))
     = Some (Matrix4 1 0 0 0  0 1 0 0  0 0 1 0  0 0 1 1)
   \<and> specWorldMatrix equatorFrame (inverseTransformation equatorFrame)
          (levelParams\<lparr> scale := 1, tEast := 1, tNorth := 0, tUp := 0 \<rparr>)
     = Some (Matrix4 1 0 0 0  0 1 0 0  0 0 1 0  0 1 0 1)"
proof -
  have "fst (composeModelMatrixENU (\<lambda>a. equatorFrame) inverseTransformation Map.empty equatorAnchor
          (levelParams\<lparr> scale := 1, tEast := 1, tNorth := 0, tUp := 0 \<rparr>))
     = Some (Matrix4 1 0 0 0  0 1 0 0  0 0 1 0  0 0 1 1)"
    by (simp add: composeModelMatrixENU_value [OF enuRotation_levelParams] equator_miss)
       (simp add: equatorFrame_def Matrix4_IDENTITY_def)
  moreover have "specWorldMatrix equatorFrame (inverseTransformation equatorFrame)
          (levelParams\<lparr> scale := 1, tEast := 1, tNorth := 0, tUp := 0 \<rparr>)
     = Some (Matrix4 1 0 0 0  0 1 0 0  0 0 1 0  0 1 0 1)"
    by (simp add: specWorldMatrix_def enuRotation_levelParams Let_def)
       (simp add: equatorFrame_def Matrix4_IDENTITY_def)
  ultimately show ?thesis by blast
qed

text \<open>
  C3, as the code has it. The composer has no check of the scale: with a scale \<open>\<le> 0\<close> (and a
  rotation that is defined) it returns the product built with \<open>S = diag(scale, scale, scale)\<close>
  from the scale as given, neither rejected nor clamped.
\<close>

theorem composer_accepts_nonpositive_scale:
  assumes "scale p \<le> 0" and "enuRotation p = Some R"
  shows "fst (composeModelMatrixENU F G cache a p) =
     Some (Matrix4_multiply
            (Matrix4_multiply (enuToEcef (fst (getCachedEnuTransforms F G cache a)))
               (Matrix4_multiply (Matrix4_fromTranslation (tEast p, tNorth p, tUp p))
                  (Matrix4_multiply R (Matrix4_fromScale (scale p, scale p, scale p)))))
            (ecefToEnu (fst (getCachedEnuTransforms F G cache a))))"
  using assms(2) by (rule composeModelMatrixENU_value)

text \<open>
  C3, as stated, fails: with scale \<open>-2\<close> at the equator anchor the composer returns a matrix,
  whose diagonal holds \<open>-2\<close>.
\<close>

theorem composer_negative_scale_counterexample:
  "scale (levelParams\<lparr> scale := - 2, tEast := 0, tNorth := 0, tUp := 0 \<rparr>) \<le> 0
   \<and> fst (composeModelMatrixENU (\<lambda>a. equatorFrame) inverseTransformation Map.empty equatorAnchor
          (levelParams\<lparr> scale := - 2, tEast := 0, tNorth := 0, tUp := 0 \<rparr>))
     = Some (Matrix4 (- 2) 0 0 0  0 (- 2) 0 0  0 0 (- 2) 0  0 0 (- 19134411) 1)"
  by (simp add: composeModelMatrixENU_value [OF enuRotation_levelParams] equator_miss)
     (simp add: equatorFrame_def Matrix4_IDENTITY_def)

theorem composer_accepts_nonpositive_scale_witness:
  "scale (levelParams\<lparr> scale := 0, tEast := 0, tNorth := 0, tUp := 0 \<rparr>) \<le> 0
   \<and> enuRotation (levelParams\<lparr> scale := 0, tEast := 0, tNorth := 0, tUp := 0 \<rparr>) = Some Matrix4_IDENTITY
   \<and> fst (composeModelMatrixENU (\<lambda>a. equatorFrame) inverseTransformation Map.empty equatorAnchor
          (levelParams\<lparr> scale := 0, tEast := 0, tNorth := 0, tUp := 0 \<rparr>))
     = Some (Matrix4 0 0 0 0  0 0 0 0  0 0 0 0  0 0 (- 6378137) 1)"
proof -
  have h: "scale (levelParams\<lparr> scale := 0, tEast := 0, tNorth := 0, tUp := 0 \<rparr>) \<le> 0" by simp
  show ?thesis
    using composer_accepts_nonpositive_scale [OF h enuRotation_levelParams,
        of "\<lambda>a. equatorFrame" inverseTransformation Map.empty equatorAnchor] h
    by (simp add: enuRotation_levelParams equator_miss)
       (simp add: equatorFrame_def Matrix4_IDENTITY_def)
qed


end
